theory Spec2Isabelle
  imports Main "HOL-Library.Word" "HOL-Library.Char_ord" "HOL-Library.List_Lexorder"
begin

section \<open>Basic types\<close>

text \<open>Go's \<^verbatim>\<open>int\<close> on a 64-bit platform: a 64-bit two's complement value on which
  \<open>+\<close> wraps around and comparisons are signed (\<open><s\<close>, \<open>\<le>s\<close>, read by \<open>sint\<close>).\<close>

type_synonym go_int = "64 word"

text \<open>The Go errors are formatted strings; each \<^verbatim>\<open>fmt.Errorf\<close> of the sources is a
  constructor that keeps the arguments of the format.\<close>

datatype error =
    ErrNoPortSet go_int                \<comment> \<open>unable to find available port set starting from \<open>%d\<close>\<close>
  | ErrHomeDir                         \<comment> \<open>failed to get home directory\<close>
  | ErrMkdir                           \<comment> \<open>failed to create .graphsense directory\<close>
  | ErrOpenDatabase                    \<comment> \<open>failed to open database\<close>
  | ErrCreateTable                     \<comment> \<open>failed to create instances table\<close>
  | ErrStoreContainer string           \<comment> \<open>failed to store container \<open>%s\<close>\<close>
  | ErrQueryContainers                 \<comment> \<open>failed to query containers\<close>
  | ErrScanRow                         \<comment> \<open>failed to scan row\<close>
  | ErrRemoveContainers string         \<comment> \<open>failed to remove containers for instance \<open>%s\<close>\<close>
  | ErrRowsAffected                    \<comment> \<open>failed to get rows affected\<close>
  | ErrKeysFileNotFound string         \<comment> \<open>API keys file not found: \<open>%s\<close>\<close>
  | ErrOpenKeysFile                    \<comment> \<open>failed to open API keys file\<close>
  | ErrReadKeysFile                    \<comment> \<open>failed to read API keys file\<close>
  | ErrCreateTemp                      \<comment> \<open>the error of \<^verbatim>\<open>os.CreateTemp\<close>\<close>
  | ErrWriteString                     \<comment> \<open>the error of \<^verbatim>\<open>WriteString\<close>\<close>
  | ErrCommand                         \<comment> \<open>the error of \<^verbatim>\<open>cmd.Run\<close>\<close>
  | ErrReadString                      \<comment> \<open>the error of \<^verbatim>\<open>reader.ReadString\<close>\<close>
  | ErrRepoPathNotExist string         \<comment> \<open>repository path does not exist: \<open>%s\<close>\<close>
  | ErrAbsPath                         \<comment> \<open>failed to get absolute path\<close>
  | ErrInstanceExists string           \<comment> \<open>instance \<open>%s\<close> already exists. Use remove command first\<close>
  | ErrFindPorts error                 \<comment> \<open>failed to find available ports: \<open>%v\<close>\<close>
  | ErrLoadAPIKeys error               \<comment> \<open>failed to load API keys: \<open>%v\<close>\<close>
  | ErrCreateEnvFile error             \<comment> \<open>failed to create environment file: \<open>%v\<close>\<close>
  | ErrCreateOverride error            \<comment> \<open>failed to create compose override: \<open>%v\<close>\<close>
  | ErrUserHome                        \<comment> \<open>failed to get user home directory\<close>
  | ErrComposeFileNotFound string      \<comment> \<open>docker-compose.yml not found at: \<open>%s\<close>\<close>
  | ErrDeploy string error             \<comment> \<open>failed to deploy instance \<open>%s\<close>: \<open>%v\<close>\<close>
  | ErrInstanceNotExist string         \<comment> \<open>instance \<open>%s\<close> does not exist\<close>
  | ErrStop string error               \<comment> \<open>failed to stop instance \<open>%s\<close>: \<open>%v\<close>\<close>
  | ErrStart string error              \<comment> \<open>failed to start instance \<open>%s\<close>: \<open>%v\<close>\<close>

section \<open>Strings: the Go library functions the sources call\<close>

text \<open>A Go string is a sequence of bytes, here a \<open>char list\<close>; the library functions are
  modelled on the bytes of the UTF-8 encoding.\<close>

definition ascii_upper :: string where
  "ascii_upper = ''ABCDEFGHIJKLMNOPQRSTUVWXYZ''"

definition ascii_lower :: string where
  "ascii_lower = ''abcdefghijklmnopqrstuvwxyz''"

definition ascii_digit :: string where
  "ascii_digit = ''0123456789''"

definition lower_byte :: "char \<Rightarrow> char" where
  "lower_byte c = (case map_of (zip ascii_upper ascii_lower) c of Some d \<Rightarrow> d | None \<Rightarrow> c)"

text \<open>\<^verbatim>\<open>strings.ToLower\<close>. ASCII capitals are lowered. Two runes outside ASCII have an
  ASCII lower case: U+212A (Kelvin sign, bytes E2 84 AA) becomes \<open>k\<close> and U+0130 (bytes
  C4 B0) becomes \<open>i\<close>. Every other rune outside ASCII is mapped by Go to a rune outside
  ASCII again (an invalid byte to U+FFFD); the model leaves those bytes as they are, which
  makes no difference to the callers here: they either replace every byte outside
  \<open>[a-z0-9-]\<close> or compare the result with an ASCII word.\<close>

fun ToLower :: "string \<Rightarrow> string" where
  "ToLower [] = []"
| "ToLower (c # cs) =
     (if c = CHR 0xE2 \<and> take 2 cs = [CHR 0x84, CHR 0xAA] then CHR ''k'' # ToLower (drop 2 cs)
      else if c = CHR 0xC4 \<and> take 1 cs = [CHR 0xB0] then CHR ''i'' # ToLower (drop 1 cs)
      else lower_byte c # ToLower cs)"

text \<open>\<^verbatim>\<open>strings.TrimSpace\<close> removes the leading and trailing white space runes
  (\<^verbatim>\<open>unicode.IsSpace\<close>): six ASCII bytes, and U+0085, U+00A0, U+1680, U+2000 to U+200A,
  U+2028, U+2029, U+202F, U+205F, U+3000 in their UTF-8 encodings.\<close>

definition ascii_space :: string where
  "ascii_space = [CHR 0x09, CHR 0x0A, CHR 0x0B, CHR 0x0C, CHR 0x0D, CHR 0x20]"

definition unicode_space :: "string list" where
  "unicode_space =
     [[CHR 0xC2, CHR 0x85], [CHR 0xC2, CHR 0xA0], [CHR 0xE1, CHR 0x9A, CHR 0x80],
      [CHR 0xE2, CHR 0x80, CHR 0x80], [CHR 0xE2, CHR 0x80, CHR 0x81],
      [CHR 0xE2, CHR 0x80, CHR 0x82], [CHR 0xE2, CHR 0x80, CHR 0x83],
      [CHR 0xE2, CHR 0x80, CHR 0x84], [CHR 0xE2, CHR 0x80, CHR 0x85],
      [CHR 0xE2, CHR 0x80, CHR 0x86], [CHR 0xE2, CHR 0x80, CHR 0x87],
      [CHR 0xE2, CHR 0x80, CHR 0x88], [CHR 0xE2, CHR 0x80, CHR 0x89],
      [CHR 0xE2, CHR 0x80, CHR 0x8A], [CHR 0xE2, CHR 0x80, CHR 0xA8],
      [CHR 0xE2, CHR 0x80, CHR 0xA9], [CHR 0xE2, CHR 0x80, CHR 0xAF],
      [CHR 0xE2, CHR 0x81, CHR 0x9F], [CHR 0xE3, CHR 0x80, CHR 0x80]]"

text \<open>The number of bytes of the white space rune at the front (at the end) of a string,
  0 when there is none.\<close>

definition space_prefix_len :: "string \<Rightarrow> nat" where
  "space_prefix_len s =
     (if s \<noteq> [] \<and> hd s \<in> set ascii_space then 1
      else if take 2 s \<in> set unicode_space then 2
      else if take 3 s \<in> set unicode_space then 3
      else 0)"

definition space_suffix_len :: "string \<Rightarrow> nat" where
  "space_suffix_len s =
     (if s \<noteq> [] \<and> last s \<in> set ascii_space then 1
      else if drop (length s - 2) s \<in> set unicode_space then 2
      else if drop (length s - 3) s \<in> set unicode_space then 3
      else 0)"

fun TrimLeftSpace :: "string \<Rightarrow> string" where
  "TrimLeftSpace [] = []"
| "TrimLeftSpace (c # cs) =
     (let n = space_prefix_len (c # cs) in
      if n = 0 then c # cs else TrimLeftSpace (drop (n - 1) cs))"

text \<open>The same from the right, on the reversed string.\<close>

fun TrimRightSpace_rev :: "string \<Rightarrow> string" where
  "TrimRightSpace_rev [] = []"
| "TrimRightSpace_rev (c # cs) =
     (let n = space_suffix_len (rev (c # cs)) in
      if n = 0 then c # cs else TrimRightSpace_rev (drop (n - 1) cs))"

definition TrimSpace :: "string \<Rightarrow> string" where
  "TrimSpace s = rev (TrimRightSpace_rev (rev (TrimLeftSpace s)))"

text \<open>\<^verbatim>\<open>strings.Trim(s, "-")\<close>: the leading and trailing hyphens are removed.\<close>

definition Trim_hyphen :: "string \<Rightarrow> string" where
  "Trim_hyphen s = rev (dropWhile (\<lambda>c. c = CHR ''-'') (rev (dropWhile (\<lambda>c. c = CHR ''-'') s)))"

text \<open>\<^verbatim>\<open>regexp.ReplaceAllString\<close> for a pattern \<^verbatim>\<open>[^...]+\<close> and the replacement \<^verbatim>\<open>"-"\<close>:
  every maximal run of bytes outside the class \<open>keep\<close> becomes one hyphen. A rune outside
  ASCII consists of bytes outside ASCII only, so the runs of bytes are the runs of runes.
  The flag says whether the previous byte already belongs to a run.\<close>

fun replace_runs :: "(char \<Rightarrow> bool) \<Rightarrow> bool \<Rightarrow> string \<Rightarrow> string" where
  "replace_runs keep in_run [] = []"
| "replace_runs keep in_run (c # cs) =
     (if keep c then c # replace_runs keep False cs
      else if in_run then replace_runs keep True cs
      else CHR ''-'' # replace_runs keep True cs)"

text \<open>\<^verbatim>\<open>filepath.Base\<close> on Unix: the last element of the path, trailing slashes removed
  first; \<open>.\<close> for the empty path and \<open>/\<close> for a path of slashes only.\<close>

definition filepath_Base :: "string \<Rightarrow> string" where
  "filepath_Base path =
     (if path = [] then ''.''
      else let stripped = rev (dropWhile (\<lambda>c. c = CHR ''/'') (rev path));
               elem = rev (takeWhile (\<lambda>c. c \<noteq> CHR ''/'') (rev stripped))
           in if elem = [] then ''/'' else elem)"

text \<open>\<^verbatim>\<open>strings.HasPrefix\<close>, \<^verbatim>\<open>strings.Contains\<close> and \<^verbatim>\<open>strings.SplitN(s, "=", 2)\<close>.\<close>

definition HasPrefix :: "string \<Rightarrow> string \<Rightarrow> bool" where
  "HasPrefix s p \<longleftrightarrow> take (length p) s = p"

fun Contains :: "string \<Rightarrow> string \<Rightarrow> bool" where
  "Contains [] sub \<longleftrightarrow> sub = []"
| "Contains (c # cs) sub \<longleftrightarrow> HasPrefix (c # cs) sub \<or> Contains cs sub"

definition SplitN2_eq :: "string \<Rightarrow> string list" where
  "SplitN2_eq s =
     (if CHR ''='' \<in> set s
      then [takeWhile (\<lambda>c. c \<noteq> CHR ''='') s, tl (dropWhile (\<lambda>c. c \<noteq> CHR ''='') s)]
      else [s])"

text \<open>The decimal form of an integer, for \<^verbatim>\<open>%d\<close>.\<close>

fun digits :: "nat \<Rightarrow> string" where
  "digits n = (if n < 10 then [ascii_digit ! n] else digits (n div 10) @ [ascii_digit ! (n mod 10)])"

declare digits.simps [simp del]

definition itoa :: "int \<Rightarrow> string" where
  "itoa i = (if i < 0 then CHR ''-'' # digits (nat (- i)) else digits (nat i))"

definition unlines :: "string list \<Rightarrow> string" where
  "unlines ls = concat (map (\<lambda>l. l @ [CHR 0x0A]) ls)"

section \<open>Instance names (internal/docker.go)\<close>

definition lower_alnum :: "char \<Rightarrow> bool" where
  "lower_alnum c \<longleftrightarrow> c \<in> set ascii_lower \<or> c \<in> set ascii_digit"

definition lower_alnum_hyphen :: "char \<Rightarrow> bool" where
  "lower_alnum_hyphen c \<longleftrightarrow> lower_alnum c \<or> c = CHR ''-''"

definition GenerateInstanceName :: "string \<Rightarrow> string" where
  "GenerateInstanceName repoPath =
     (let repoName = filepath_Base repoPath;
          sanitized = replace_runs lower_alnum False (ToLower repoName)
      in ''graphsense-'' @ Trim_hyphen sanitized)"

definition SanitizeInstanceName :: "string \<Rightarrow> string" where
  "SanitizeInstanceName name = replace_runs lower_alnum_hyphen False (ToLower name)"

text \<open>The name \<^verbatim>\<open>deployInstance\<close> works with (lines 51 to 57 of its file): generated from
  the absolute repository path when no name is given, sanitized in both cases.\<close>

definition deploy_instance_name :: "string \<Rightarrow> string \<Rightarrow> string" where
  "deploy_instance_name absRepoPath instanceName =
     SanitizeInstanceName
       (if instanceName = [] then GenerateInstanceName absRepoPath else instanceName)"

section \<open>Port allocator (internal/docker.go)\<close>

definition DefaultBasePort :: go_int where
  "DefaultBasePort = 8080"

text \<open>\<^verbatim>\<open>isPortInUse\<close> binds a transient listener with \<^verbatim>\<open>net.Listen\<close>; the port counts as
  in use exactly when the bind fails. What the host answers is the parameter \<open>lf\<close>
  (listen fails).\<close>

definition isPortInUse :: "(go_int \<Rightarrow> bool) \<Rightarrow> go_int \<Rightarrow> bool" where
  "isPortInUse lf port = lf port"

text \<open>The \<^verbatim>\<open>for\<close> loop of \<^verbatim>\<open>FindAvailablePortSet\<close>, entered at the candidate \<open>port\<close>.
  The limit is tested only after an increment, as in the source.\<close>

function FindAvailablePortSet_loop ::
  "(go_int \<Rightarrow> bool) \<Rightarrow> go_int \<Rightarrow> go_int \<Rightarrow> error + go_int" where
  "FindAvailablePortSet_loop lf basePort port =
     (let appPort = port; postgresPort = port + 100; neo4jBoltPort = port + 200 in
      if isPortInUse lf appPort \<or> isPortInUse lf postgresPort \<or> isPortInUse lf neo4jBoltPort
      then (let port' = port + 10 in
            if 65000 <s port' then Inl (ErrNoPortSet basePort)
            else FindAvailablePortSet_loop lf basePort port')
      else Inr port)"
  by pat_completeness auto

text \<open>Every iteration that continues has a candidate of at most 65000, and the candidate
  grows by 10 without wrapping from there; a candidate above 65000 can only be the first
  one, whose successor may wrap to a negative value.\<close>

termination FindAvailablePortSet_loop
proof (relation "measure (\<lambda>(lf, b, p). if 65000 <s p then 2 ^ 64 else nat (65001 - sint p))")
  show "wf (measure (\<lambda>(lf :: go_int \<Rightarrow> bool, b :: go_int, p :: go_int).
          if 65000 <s p then 2 ^ 64 else nat (65001 - sint p)))"
    by simp
next
  fix lf :: "go_int \<Rightarrow> bool" and basePort port x xa xb xc :: go_int
  assume a: "xc = port + 10" "\<not> 65000 <s xc"
  have le: "sint (port + 10) \<le> 65000"
    using a by (simp add: word_sless_alt)
  have ge: "- (2 ^ 63) \<le> sint (port + 10)"
    using sint_ge [of "port + 10"] by simp
  show "((lf, basePort, xc), lf, basePort, port)
       \<in> measure (\<lambda>(lf, b, p). if 65000 <s p then 2 ^ 64 else nat (65001 - sint p))"
  proof (cases "65000 <s port")
    case True
    then show ?thesis
      using a le ge by (simp add: word_sless_alt)
  next
    case False
    then have small: "sint port \<le> 65000"
      by (simp add: word_sless_alt)
    moreover have "- (2 ^ 63) \<le> sint port"
      using sint_ge [of port] by simp
    ultimately have "signed_take_bit 63 (sint port + 10) = sint port + 10"
      by (intro signed_take_bit_int_eq_self) simp_all
    then have "sint (port + 10) = sint port + 10"
      by (simp add: sint_word_ariths)
    then show ?thesis
      using a False le by (simp add: word_sless_alt)
  qed
qed

declare FindAvailablePortSet_loop.simps [simp del]

definition FindAvailablePortSet :: "(go_int \<Rightarrow> bool) \<Rightarrow> go_int \<Rightarrow> error + go_int" where
  "FindAvailablePortSet lf basePort =
     (let basePort = (if basePort = 0 then DefaultBasePort else basePort) in
      FindAvailablePortSet_loop lf basePort basePort)"

text \<open>The condition of the loop (some port of the candidate triple is occupied) and the
  triple itself, for stating the properties of the allocator.\<close>

definition port_set_in_use :: "(go_int \<Rightarrow> bool) \<Rightarrow> go_int \<Rightarrow> bool" where
  "port_set_in_use lf port \<longleftrightarrow>
     isPortInUse lf port \<or> isPortInUse lf (port + 100) \<or> isPortInUse lf (port + 200)"

definition port_set :: "go_int \<Rightarrow> go_int set" where
  "port_set port = {port, port + 100, port + 200}"

text \<open>Two hosts: one on which exactly port 8080 is taken, one on which 8080 and 8190 are.\<close>

definition only_8080_taken :: "go_int \<Rightarrow> bool" where
  "only_8080_taken p \<longleftrightarrow> p = 8080"

definition taken_8080_8190 :: "go_int \<Rightarrow> bool" where
  "taken_8080_8190 p \<longleftrightarrow> p = 8080 \<or> p = 8190"

section \<open>The host and the state of the world\<close>

text \<open>Everything outside the program answers through a \<open>host\<close>: the file system, the
  port namespace, the external executor (\<^verbatim>\<open>docker\<close> and \<^verbatim>\<open>docker-compose\<close>), the
  terminal and the faults of the SQLite driver. The outcome of an external command may
  depend on when it runs: \<open>run_command\<close> takes the number of effects that happened
  before it.\<close>

text \<open>The outcome of \<^verbatim>\<open>os.Stat\<close>, as far as the sources tell the cases apart: success, an
  error for which \<^verbatim>\<open>os.IsNotExist\<close> holds (\<^verbatim>\<open>ENOENT\<close>), the error \<^verbatim>\<open>ENOTDIR\<close> of a path that
  leads through a regular file (there is no such path either, but \<^verbatim>\<open>os.IsNotExist\<close> is
  false for it), and any other error.\<close>

datatype stat_result = StatOk | StatNotExist | StatNotDir | StatOtherError

record exec_result =
  exit_ok :: bool
  stdout :: string

type_synonym env_vars = "(string \<times> string) list"

datatype sql_stmt =
    CreateTable
  | InsertOrReplace string string
  | SelectByInstance string
  | DeleteByInstance string

record host =
  os_Stat :: "string \<Rightarrow> stat_result"
  filepath_Abs :: "string \<Rightarrow> string option"
  filepath_Join :: "string list \<Rightarrow> string"
  os_UserHomeDir :: "string option"
  listen_fails :: "go_int \<Rightarrow> bool"
  run_command :: "nat \<Rightarrow> string \<Rightarrow> string list \<Rightarrow> env_vars \<Rightarrow> exec_result"
  os_CreateTemp :: "string \<Rightarrow> string option"
  write_fails :: "string \<Rightarrow> bool"
  scan_file :: "string \<Rightarrow> (string list \<times> bool) option"
  stdin_ReadString :: "string option"
  mkdir_fails :: bool
  sql_open_fails :: bool
  sql_fails :: "sql_stmt \<Rightarrow> bool"
  rows_affected_fails :: bool
  rows_scan_fails :: bool
  current_timestamp :: string

text \<open>
  \<^item> \<open>filepath_Abs\<close>, \<open>os_UserHomeDir\<close>, \<open>os_CreateTemp\<close>, \<open>stdin_ReadString\<close>: \<open>None\<close> is
    the error of the call; \<open>stdin_ReadString\<close> is the line read up to and including the
    newline (\<^verbatim>\<open>ReadString\<close> returns an error when the input ends before a newline).
  \<^item> \<open>scan_file\<close>: \<^verbatim>\<open>os.Open\<close> followed by a \<^verbatim>\<open>bufio.Scanner\<close> over the lines; \<open>None\<close> when
    the file cannot be opened, otherwise the lines and whether \<^verbatim>\<open>scanner.Err()\<close> is set.
\<close>

text \<open>An instance row of the table \<^verbatim>\<open>instances\<close> (struct \<^verbatim>\<open>Instance\<close>), under the names of
  its columns.\<close>

record Instance =
  row_id :: go_int
  instance_name :: string
  container_name :: string
  repo_path :: string
  app_port :: go_int
  postgres_port :: go_int
  neo4j_bolt_port :: go_int
  created_at :: string

record DeployConfig =
  RepoPath :: string
  InstanceName :: string
  AppPort :: go_int
  PostgresPort :: go_int
  Neo4jBoltPort :: go_int
  CoAPIKey :: string
  AnthropicAPIKey :: string

datatype effect =
    Exec string "string list" env_vars   \<comment> \<open>an external command: program, arguments, added environment\<close>
  | PortScan go_int                      \<comment> \<open>the listeners bound by \<^verbatim>\<open>FindAvailablePortSet\<close>\<close>
  | WriteTemp string string              \<comment> \<open>a temporary file created with this content\<close>
  | RemoveFile string                    \<comment> \<open>\<^verbatim>\<open>os.Remove\<close>\<close>

datatype log_line = Info string | Success string | Warning string | Print string

text \<open>The state the program changes: the rows of the durable store (\<open>None\<close> while the
  database file does not exist), the counter of \<^verbatim>\<open>AUTOINCREMENT\<close>, the effects on the host
  in the order they happened, and what was printed.\<close>

record world =
  db :: "Instance list option"
  db_seq :: go_int
  effects :: "effect list"
  console :: "log_line list"

definition log :: "log_line \<Rightarrow> world \<Rightarrow> world" where
  "log l w = w\<lparr>console := console w @ [l]\<rparr>"

definition effect :: "effect \<Rightarrow> world \<Rightarrow> world" where
  "effect e w = w\<lparr>effects := effects w @ [e]\<rparr>"

definition quote :: "string \<Rightarrow> string" where
  "quote s = [CHR 0x27] @ s @ [CHR 0x27]"

section \<open>External executor and artifacts (internal/docker.go)\<close>

definition project_label :: "string \<Rightarrow> string" where
  "project_label instanceName = ''label=com.docker.compose.project='' @ instanceName"

text \<open>\<^verbatim>\<open>InstanceExists\<close>: \<^verbatim>\<open>cmd.Output()\<close> fails when the command cannot run or exits with
  a status other than 0.\<close>

definition InstanceExists :: "host \<Rightarrow> world \<Rightarrow> string \<Rightarrow> bool \<times> world" where
  "InstanceExists h w instanceName =
     (let args = [''ps'', ''-a'', ''--filter'', project_label instanceName,
                  ''--format'', ''{{.Names}}''];
          r = run_command h (length (effects w)) ''docker'' args [];
          w = effect (Exec ''docker'' args []) w
      in if \<not> exit_ok r then (False, w)
         else (TrimSpace (stdout r) \<noteq> [], w))"

definition RunDockerCompose :: "host \<Rightarrow> world \<Rightarrow> string list \<Rightarrow> env_vars \<Rightarrow> error option \<times> world" where
  "RunDockerCompose h w args envVars =
     (let r = run_command h (length (effects w)) ''docker-compose'' args envVars;
          w = effect (Exec ''docker-compose'' args envVars) w
      in (if exit_ok r then None else Some ErrCommand, w))"

definition env_file_content :: "DeployConfig \<Rightarrow> string" where
  "env_file_content config =
     (let content = unlines
        [''# Repository Configuration'',
         ''REPO_PATH='' @ RepoPath config,
         '''',
         ''# Port Configuration'',
         ''PORT='' @ itoa (sint (AppPort config)),
         ''POSTGRES_PORT='' @ itoa (sint (PostgresPort config)),
         ''NEO4J_BOLT_PORT='' @ itoa (sint (Neo4jBoltPort config)),
         '''',
         ''# Database Configuration'',
         ''POSTGRES_DB=graphsense'',
         ''POSTGRES_USER=postgres'',
         ''POSTGRES_PASSWORD=postgres'',
         '''',
         ''# Neo4j Configuration'',
         ''NEO4J_AUTH=none'',
         ''NEO4J_USERNAME=neo4j'',
         ''NEO4J_PASSWORD='',
         '''',
         ''# Application Configuration'',
         ''NODE_ENV=production'',
         ''LOG_LEVEL=info'',
         ''INDEX_FROM_SCRATCH=true'',
         '''',
         ''# Security Configuration'',
         ''CORS_ORIGIN=*'',
         ''RATE_LIMIT_MAX=100'',
         ''RATE_LIMIT_WINDOW=900000''];
          content = (if CoAPIKey config \<noteq> []
                     then content @ ''CO_API_KEY='' @ CoAPIKey config @ [CHR 0x0A]
                     else content);
          content = (if AnthropicAPIKey config \<noteq> []
                     then content @ ''ANTHROPIC_API_KEY='' @ AnthropicAPIKey config @ [CHR 0x0A]
                     else content)
      in content)"

definition CreateTempEnvFile :: "host \<Rightarrow> world \<Rightarrow> DeployConfig \<Rightarrow> (error + string) \<times> world" where
  "CreateTempEnvFile h w config =
     (case os_CreateTemp h ''graphsense-env-*.env'' of
        None \<Rightarrow> (Inl ErrCreateTemp, w)
      | Some tmpFile \<Rightarrow>
          if write_fails h tmpFile then (Inl ErrWriteString, effect (WriteTemp tmpFile []) w)
          else (Inr tmpFile, effect (WriteTemp tmpFile (env_file_content config)) w))"

definition compose_override_content :: "DeployConfig \<Rightarrow> string" where
  "compose_override_content config =
     (let n = InstanceName config; dq = [CHR 0x22] in unlines
        [''version: '' @ dq @ ''3.8'' @ dq,
         '''',
         ''services:'',
         ''  postgres:'',
         ''    container_name: '' @ n @ ''-postgres'',
         ''    volumes:'',
         ''      - '' @ n @ ''_postgres_data:/var/lib/postgresql/data'',
         ''    networks:'',
         ''      - '' @ n @ ''-network'',
         '''',
         ''  neo4j:'',
         ''    container_name: '' @ n @ ''-neo4j'',
         ''    volumes:'',
         ''      - '' @ n @ ''_neo4j_data:/data'',
         ''      - '' @ n @ ''_neo4j_logs:/logs'',
         ''      - '' @ n @ ''_neo4j_plugins:/plugins'',
         ''      - '' @ n @ ''_neo4j_conf:/conf'',
         ''    networks:'',
         ''      - '' @ n @ ''-network'',
         '''',
         ''  app:'',
         ''    container_name: '' @ n @ ''-app'',
         ''    volumes:'',
         ''      - '' @ n @ ''_app_repos:/app/.graphsense'',
         ''      - '' @ RepoPath config @ '':/home/repo:ro'',
         ''    ports:'',
         ''      - '' @ dq @ itoa (sint (AppPort config)) @ '':8080'' @ dq,
         ''    networks:'',
         ''      - '' @ n @ ''-network'',
         ''    environment:'',
         ''      - POSTGRES_URL=postgresql://postgres:postgres@'' @ n @ ''-postgres:5432/${POSTGRES_DB}'',
         ''      - NEO4J_URI=bolt://'' @ n @ ''-neo4j:7687'',
         ''      - LOCAL_REPO_PATH=/home/repo'',
         '''',
         ''networks:'',
         ''  '' @ n @ ''-network:'',
         ''    driver: bridge'',
         '''',
         ''volumes:'',
         ''  '' @ n @ ''_postgres_data:'',
         ''    name: '' @ n @ ''_postgres_data'',
         ''  '' @ n @ ''_neo4j_data:'',
         ''    name: '' @ n @ ''_neo4j_data'',
         ''  '' @ n @ ''_neo4j_logs:'',
         ''    name: '' @ n @ ''_neo4j_logs'',
         ''  '' @ n @ ''_neo4j_plugins:'',
         ''    name: '' @ n @ ''_neo4j_plugins'',
         ''  '' @ n @ ''_neo4j_conf:'',
         ''    name: '' @ n @ ''_neo4j_conf'',
         ''  '' @ n @ ''_app_repos:'',
         ''    name: '' @ n @ ''_app_repos''])"

definition CreateComposeOverride :: "host \<Rightarrow> world \<Rightarrow> DeployConfig \<Rightarrow> (error + string) \<times> world" where
  "CreateComposeOverride h w config =
     (case os_CreateTemp h ''graphsense-compose-*.yml'' of
        None \<Rightarrow> (Inl ErrCreateTemp, w)
      | Some tmpFile \<Rightarrow>
          if write_fails h tmpFile then (Inl ErrWriteString, effect (WriteTemp tmpFile []) w)
          else (Inr tmpFile, effect (WriteTemp tmpFile (compose_override_content config)) w))"

text \<open>\<^verbatim>\<open>WaitForHealthy\<close>: the loop over the attempts, \<open>remaining\<close> of \<open>maxAttempts\<close> still
  to run. It returns no error on any path; the pauses between attempts are not
  modelled.\<close>

fun WaitForHealthy_loop :: "host \<Rightarrow> world \<Rightarrow> string \<Rightarrow> nat \<Rightarrow> nat \<Rightarrow> error option \<times> world" where
  "WaitForHealthy_loop h w instanceName maxAttempts 0 =
     (None, log (Warning ''Not all services became healthy within timeout, but continuing...'') w)"
| "WaitForHealthy_loop h w instanceName maxAttempts (Suc remaining) =
     (let attempt = maxAttempts - Suc remaining;
          envs = [(''COMPOSE_PROJECT_NAME'', instanceName)];
          r = run_command h (length (effects w)) ''docker-compose'' [''ps''] envs;
          w = effect (Exec ''docker-compose'' [''ps''] envs) w
      in if \<not> exit_ok r then WaitForHealthy_loop h w instanceName maxAttempts remaining
         else if Contains (stdout r) ''Up'' then (None, w)
         else WaitForHealthy_loop h
                (log (Info (''Waiting for health checks... ('' @ itoa (int (attempt + 1)) @ ''/''
                       @ itoa (int maxAttempts) @ '')'')) w)
                instanceName maxAttempts remaining)"

definition WaitForHealthy :: "host \<Rightarrow> world \<Rightarrow> string \<Rightarrow> nat \<Rightarrow> error option \<times> world" where
  "WaitForHealthy h w instanceName maxAttempts =
     WaitForHealthy_loop h (log (Info ''Waiting for services to be healthy...'') w)
       instanceName maxAttempts maxAttempts"

text \<open>\<^verbatim>\<open>LoadAPIKeys\<close>: one line of the secrets file, given the keys found so far.\<close>

definition load_key_line :: "string \<times> string \<Rightarrow> string \<Rightarrow> string \<times> string" where
  "load_key_line keys raw =
     (let line = TrimSpace raw in
      if line = [] \<or> HasPrefix line ''#'' then keys
      else let parts = SplitN2_eq line in
        if length parts \<noteq> 2 then keys
        else let key = TrimSpace (parts ! 0); val = TrimSpace (parts ! 1) in
          if key = ''CO_API_KEY'' then (val, snd keys)
          else if key = ''ANTHROPIC_API_KEY'' then (fst keys, val)
          else keys)"

definition LoadAPIKeys :: "host \<Rightarrow> error + (string \<times> string)" where
  "LoadAPIKeys h =
     (case os_UserHomeDir h of
        None \<Rightarrow> Inl ErrHomeDir
      | Some homeDir \<Rightarrow>
          let envFile = filepath_Join h [homeDir, ''.graphsense'', ''.env''] in
          if os_Stat h envFile = StatNotExist then Inl (ErrKeysFileNotFound envFile)
          else case scan_file h envFile of
                 None \<Rightarrow> Inl ErrOpenKeysFile
               | Some (lines, scan_err) \<Rightarrow>
                   let keys = foldl load_key_line ([], []) lines in
                   if scan_err then Inl ErrReadKeysFile else Inr keys)"

section \<open>The durable store (internal/database.go)\<close>

definition rows_of :: "world \<Rightarrow> Instance list" where
  "rows_of w = (case db w of None \<Rightarrow> [] | Some rows \<Rightarrow> rows)"

text \<open>\<^verbatim>\<open>InitDB\<close> opens the database file, creating it with an empty table when it does not
  exist (\<^verbatim>\<open>CREATE TABLE IF NOT EXISTS\<close>). The file exists, for its \<^verbatim>\<open>os.Stat\<close>, exactly when
  the world has a table.\<close>

definition InitDB :: "host \<Rightarrow> world \<Rightarrow> (error + unit) \<times> world" where
  "InitDB h w =
     (case os_UserHomeDir h of
        None \<Rightarrow> (Inl ErrHomeDir, w)
      | Some homeDir \<Rightarrow>
          let graphsenseDir = filepath_Join h [homeDir, ''.graphsense''] in
          if mkdir_fails h then (Inl ErrMkdir, w)
          else
            let dbPath = filepath_Join h [graphsenseDir, ''instances.db''];
                dbExists = (db w \<noteq> None);
                w = (if \<not> dbExists then log (Info (''Creating new database at: '' @ dbPath)) w
                     else w)
            in if sql_open_fails h then (Inl ErrOpenDatabase, w)
               else
                 let w = (if \<not> dbExists then log (Info ''Database file created successfully'') w
                          else w)
                 in if sql_fails h CreateTable then (Inl ErrCreateTable, w)
                    else (Inr (), w\<lparr>db := Some (rows_of w)\<rparr>))"

text \<open>\<^verbatim>\<open>INSERT OR REPLACE\<close> under \<^verbatim>\<open>UNIQUE(instance_name, container_name)\<close>: the rows with
  the same key are deleted, the new row gets the next \<^verbatim>\<open>AUTOINCREMENT\<close> id and the current
  time stamp.\<close>

definition insert_or_replace :: "host \<Rightarrow> world \<Rightarrow> DeployConfig \<Rightarrow> string \<Rightarrow> world" where
  "insert_or_replace h w config containerName =
     (let new_row = \<lparr>row_id = db_seq w + 1,
                     instance_name = InstanceName config,
                     container_name = containerName,
                     repo_path = RepoPath config,
                     app_port = AppPort config,
                     postgres_port = PostgresPort config,
                     neo4j_bolt_port = Neo4jBoltPort config,
                     created_at = current_timestamp h\<rparr>;
          kept = filter (\<lambda>r. \<not> (instance_name r = InstanceName config
                                  \<and> container_name r = containerName)) (rows_of w)
      in w\<lparr>db := Some (kept @ [new_row]), db_seq := db_seq w + 1\<rparr>)"

definition containerNames :: "DeployConfig \<Rightarrow> string list" where
  "containerNames config =
     [InstanceName config @ ''-app'',
      InstanceName config @ ''-postgres'',
      InstanceName config @ ''-neo4j'']"

text \<open>The loop over the container names of \<^verbatim>\<open>StoreInstanceContainers\<close>; a failing insert
  returns at once and leaves the rows already written.\<close>

fun store_rows :: "host \<Rightarrow> world \<Rightarrow> DeployConfig \<Rightarrow> string list \<Rightarrow> error option \<times> world" where
  "store_rows h w config [] = (None, w)"
| "store_rows h w config (containerName # rest) =
     (if sql_fails h (InsertOrReplace (InstanceName config) containerName)
      then (Some (ErrStoreContainer containerName), w)
      else store_rows h (insert_or_replace h w config containerName) config rest)"

definition StoreInstanceContainers :: "host \<Rightarrow> world \<Rightarrow> DeployConfig \<Rightarrow> error option \<times> world" where
  "StoreInstanceContainers h w config =
     (case InitDB h w of
        (Inl err, w) \<Rightarrow> (Some err, w)
      | (Inr _, w) \<Rightarrow>
          (case store_rows h w config (containerNames config) of
             (Some err, w) \<Rightarrow> (Some err, w)
           | (None, w) \<Rightarrow>
               (None, log (Info (''Stored '' @ itoa (int (length (containerNames config)))
                             @ '' containers for instance '' @ InstanceName config
                             @ '' in database'')) w)))"

text \<open>\<^verbatim>\<open>GetInstanceContainers\<close>: the rows of the instance, \<^verbatim>\<open>ORDER BY container_name\<close> (byte
  order).\<close>

definition GetInstanceContainers :: "host \<Rightarrow> world \<Rightarrow> string \<Rightarrow> (error + Instance list) \<times> world" where
  "GetInstanceContainers h w instanceName =
     (case InitDB h w of
        (Inl err, w) \<Rightarrow> (Inl err, w)
      | (Inr _, w) \<Rightarrow>
          if sql_fails h (SelectByInstance instanceName) then (Inl ErrQueryContainers, w)
          else
            let instances = sort_key container_name
                  (filter (\<lambda>r. instance_name r = instanceName) (rows_of w))
            in if instances \<noteq> [] \<and> rows_scan_fails h then (Inl ErrScanRow, w)
               else (Inr instances, w))"

definition RemoveInstanceContainers :: "host \<Rightarrow> world \<Rightarrow> string \<Rightarrow> error option \<times> world" where
  "RemoveInstanceContainers h w instanceName =
     (case InitDB h w of
        (Inl err, w) \<Rightarrow> (Some err, w)
      | (Inr _, w) \<Rightarrow>
          if sql_fails h (DeleteByInstance instanceName)
          then (Some (ErrRemoveContainers instanceName), w)
          else
            let rowsAffected = length (filter (\<lambda>r. instance_name r = instanceName) (rows_of w));
                w = w\<lparr>db := Some (filter (\<lambda>r. instance_name r \<noteq> instanceName) (rows_of w))\<rparr>
            in if rows_affected_fails h then (Some ErrRowsAffected, w)
               else (None, log (Info (''Removed '' @ itoa (int rowsAffected)
                                 @ '' containers for instance '' @ instanceName
                                 @ '' from database'')) w))"

section \<open>The commands (package cmd)\<close>

definition remove_files :: "string list \<Rightarrow> world \<Rightarrow> world" where
  "remove_files paths w = w\<lparr>effects := effects w @ map RemoveFile paths\<rparr>"

text \<open>\<^verbatim>\<open>deployInstance\<close> from the creation of the environment file on. The two deferred
  \<^verbatim>\<open>os.Remove\<close> calls run on every return after their registration, the last one first.
  The warning for a failed store is printed without the text of its error.\<close>

definition deploy_config :: "host \<Rightarrow> world \<Rightarrow> DeployConfig \<Rightarrow> error option \<times> world" where
  "deploy_config h w config =
     (case CreateTempEnvFile h w config of
        (Inl err, w) \<Rightarrow> (Some (ErrCreateEnvFile err), w)
      | (Inr envFile, w) \<Rightarrow>
     (case CreateComposeOverride h w config of
        (Inl err, w) \<Rightarrow> (Some (ErrCreateOverride err), remove_files [envFile] w)
      | (Inr composeOverride, w) \<Rightarrow>
     (let instanceName = InstanceName config;
          w = log (Info (''Starting services for instance: '' @ instanceName)) w;
          envVars = [(''COMPOSE_PROJECT_NAME'', instanceName)]
      in case os_UserHomeDir h of
        None \<Rightarrow> (Some ErrUserHome, remove_files [composeOverride, envFile] w)
      | Some homeDir \<Rightarrow>
     (let composeFile = filepath_Join h [homeDir, ''oss'', ''code-graph-rag'', ''docker-compose.yml'']
      in if os_Stat h composeFile = StatNotExist
         then (Some (ErrComposeFileNotFound composeFile), remove_files [composeOverride, envFile] w)
         else
     (case RunDockerCompose h w
             [''-f'', composeFile, ''-f'', composeOverride, ''--env-file'', envFile, ''up'', ''-d'']
             envVars of
        (Some err, w) \<Rightarrow> (Some (ErrDeploy instanceName err), remove_files [composeOverride, envFile] w)
      | (None, w) \<Rightarrow>
     (let w = (case WaitForHealthy h w instanceName 60 of
                 (Some err, w) \<Rightarrow> log (Warning ''Health check failed, but continuing...'') w
               | (None, w) \<Rightarrow> w);
          w = (case StoreInstanceContainers h w config of
                 (Some err, w) \<Rightarrow> log (Warning ''Failed to store container information'') w
               | (None, w) \<Rightarrow> w);
          w = log (Success (''Instance '' @ quote instanceName @ '' deployed successfully!'')) w;
          w = log (Info ''Access URLs:'') w;
          w = log (Info (''  MCP Server: http://localhost:'' @ itoa (sint (AppPort config)))) w;
          w = log (Info (''  PostgreSQL: localhost:'' @ itoa (sint (PostgresPort config)))) w;
          w = log (Info (''  Neo4j Bolt: bolt://localhost:'' @ itoa (sint (Neo4jBoltPort config)))) w
      in (None, remove_files [composeOverride, envFile] w)))))))"

definition deployInstance :: "host \<Rightarrow> world \<Rightarrow> string \<Rightarrow> string \<Rightarrow> go_int \<Rightarrow> error option \<times> world" where
  "deployInstance h w repoPath instanceName basePort =
     (if os_Stat h repoPath = StatNotExist then (Some (ErrRepoPathNotExist repoPath), w)
      else case filepath_Abs h repoPath of
        None \<Rightarrow> (Some ErrAbsPath, w)
      | Some absRepoPath \<Rightarrow>
     (let instanceName = deploy_instance_name absRepoPath instanceName;
          w = log (Info (''Deploying instance: '' @ instanceName @ '' for repository: ''
                         @ absRepoPath)) w
      in case InstanceExists h w instanceName of
        (True, w) \<Rightarrow> (Some (ErrInstanceExists instanceName), w)
      | (False, w) \<Rightarrow>
     (let w = effect (PortScan basePort) w in
      case FindAvailablePortSet (listen_fails h) basePort of
        Inl err \<Rightarrow> (Some (ErrFindPorts err), w)
      | Inr appPort \<Rightarrow>
     (let postgresPort = appPort + 100;
          neo4jBoltPort = appPort + 200
      in case LoadAPIKeys h of
        Inl err \<Rightarrow> (Some (ErrLoadAPIKeys err), w)
      | Inr (coAPIKey, anthropicAPIKey) \<Rightarrow>
          deploy_config h w
            \<lparr>RepoPath = absRepoPath, InstanceName = instanceName, AppPort = appPort,
             PostgresPort = postgresPort, Neo4jBoltPort = neo4jBoltPort,
             CoAPIKey = coAPIKey, AnthropicAPIKey = anthropicAPIKey\<rparr>))))"

definition stopInstance :: "host \<Rightarrow> world \<Rightarrow> string \<Rightarrow> error option \<times> world" where
  "stopInstance h w instanceName =
     (case InstanceExists h w instanceName of
        (False, w) \<Rightarrow> (Some (ErrInstanceNotExist instanceName), w)
      | (True, w) \<Rightarrow>
          let w = log (Info (''Stopping instance: '' @ instanceName)) w;
              envVars = [(''COMPOSE_PROJECT_NAME'', instanceName)]
          in case RunDockerCompose h w [''stop''] envVars of
               (Some err, w) \<Rightarrow> (Some (ErrStop instanceName err), w)
             | (None, w) \<Rightarrow>
                 (None, log (Success (''Instance '' @ quote instanceName @ '' stopped.'')) w))"

definition startInstance :: "host \<Rightarrow> world \<Rightarrow> string \<Rightarrow> error option \<times> world" where
  "startInstance h w instanceName =
     (case InstanceExists h w instanceName of
        (False, w) \<Rightarrow> (Some (ErrInstanceNotExist instanceName), w)
      | (True, w) \<Rightarrow>
          let w = log (Info (''Starting instance: '' @ instanceName)) w;
              envVars = [(''COMPOSE_PROJECT_NAME'', instanceName)]
          in case RunDockerCompose h w [''start''] envVars of
               (Some err, w) \<Rightarrow> (Some (ErrStart instanceName err), w)
             | (None, w) \<Rightarrow>
                 (None, log (Success (''Instance '' @ quote instanceName @ '' started.'')) w))"

text \<open>\<^verbatim>\<open>removeInstance\<close> once the operator has confirmed.\<close>

definition remove_confirmed :: "host \<Rightarrow> world \<Rightarrow> string \<Rightarrow> error option \<times> world" where
  "remove_confirmed h w instanceName =
     (let w = log (Info (''Removing instance: '' @ instanceName)) w;
          envVars = [(''COMPOSE_PROJECT_NAME'', instanceName)];
          w = (case RunDockerCompose h w [''down'', ''-v'', ''--remove-orphans''] envVars of
                 (None, w) \<Rightarrow> w
               | (Some err, w) \<Rightarrow>
                   let w = log (Warning
                     ''Failed to cleanly remove instance with docker-compose, trying manual cleanup...'') w
                   in case RunDockerCompose h w
                             [''ps'', ''-a'', ''--filter'', project_label instanceName, ''-q''] [] of
                        (None, w) \<Rightarrow> snd (RunDockerCompose h w [''rm'', ''-f''] [])
                      | (Some err, w) \<Rightarrow> w);
          w = log (Info ''Removing associated volumes...'') w;
          w = snd (RunDockerCompose h w
                [''volume'', ''ls'', ''-q'', ''|'', ''grep'', ''^'' @ instanceName @ ''_'', ''|'',
                 ''xargs'', ''-r'', ''docker'', ''volume'', ''rm''] []);
          w = log (Success (''Instance '' @ quote instanceName @ '' removed.'')) w
      in (None, w))"

definition removeInstance :: "host \<Rightarrow> world \<Rightarrow> string \<Rightarrow> error option \<times> world" where
  "removeInstance h w instanceName =
     (case InstanceExists h w instanceName of
        (False, w) \<Rightarrow> (Some (ErrInstanceNotExist instanceName), w)
      | (True, w) \<Rightarrow>
          let w = log (Warning (''This will permanently remove instance '' @ quote instanceName
                                @ '' and all its data.'')) w;
              w = log (Print ''Are you sure? (y/N): '') w
          in case stdin_ReadString h of
               None \<Rightarrow> (Some ErrReadString, w)
             | Some response \<Rightarrow>
                 let response = TrimSpace (ToLower response) in
                 if response \<noteq> ''y'' \<and> response \<noteq> ''yes''
                 then (None, log (Info ''Cancelled.'') w)
                 else remove_confirmed h w instanceName)"

definition showLogs :: "host \<Rightarrow> world \<Rightarrow> string \<Rightarrow> string \<Rightarrow> error option \<times> world" where
  "showLogs h w instanceName service =
     (case InstanceExists h w instanceName of
        (False, w) \<Rightarrow> (Some (ErrInstanceNotExist instanceName), w)
      | (True, w) \<Rightarrow>
          let envVars = [(''COMPOSE_PROJECT_NAME'', instanceName)];
              args = [''logs'', ''-f''];
              args = (if service \<noteq> [] then args @ [service] else args)
          in RunDockerCompose h w args envVars)"

definition showStatus :: "host \<Rightarrow> world \<Rightarrow> string \<Rightarrow> error option \<times> world" where
  "showStatus h w instanceName =
     (case InstanceExists h w instanceName of
        (False, w) \<Rightarrow> (Some (ErrInstanceNotExist instanceName), w)
      | (True, w) \<Rightarrow>
          let w = log (Info ''Container details:'') w;
              args = [''ps'', ''--filter'', project_label instanceName, ''--format'',
                      ''table {{.Names}}'' @ [CHR 0x09] @ ''{{.Status}}'' @ [CHR 0x09] @ ''{{.Ports}}''];
              r = run_command h (length (effects w)) ''docker'' args [];
              w = effect (Exec ''docker'' args []) w
          in (if exit_ok r then None else Some ErrCommand, w))"

section \<open>Notions for stating the properties\<close>

text \<open>The host lets \<^verbatim>\<open>InitDB\<close> succeed.\<close>

definition InitDB_ok :: "host \<Rightarrow> bool" where
  "InitDB_ok h \<longleftrightarrow>
     os_UserHomeDir h \<noteq> None \<and> \<not> mkdir_fails h \<and> \<not> sql_open_fails h
     \<and> \<not> sql_fails h CreateTable"

text \<open>A row carries the values of a configuration.\<close>

definition row_of_config :: "DeployConfig \<Rightarrow> Instance \<Rightarrow> bool" where
  "row_of_config config r \<longleftrightarrow>
     instance_name r = InstanceName config \<and> repo_path r = RepoPath config
     \<and> app_port r = AppPort config \<and> postgres_port r = PostgresPort config
     \<and> neo4j_bolt_port r = Neo4jBoltPort config"

text \<open>The states of the world the program can be in, as far as the durable store goes: it
  starts without a database file, and the rows change through the functions of
  internal/database.go only. Effects and console output are unconstrained.\<close>

inductive reachable :: "world \<Rightarrow> bool" where
  fresh: "db w = None \<Longrightarrow> reachable w"
| store: "reachable w \<Longrightarrow> reachable (snd (StoreInstanceContainers h w config))"
| remove: "reachable w \<Longrightarrow> reachable (snd (RemoveInstanceContainers h w name))"
| list: "reachable w \<Longrightarrow> reachable (snd (GetInstanceContainers h w name))"
| other: "reachable w \<Longrightarrow> reachable (w\<lparr>effects := es, console := ls\<rparr>)"

text \<open>The naming invariant of the rows.\<close>

definition store_wf :: "Instance list \<Rightarrow> bool" where
  "store_wf rows \<longleftrightarrow>
     (\<forall>r\<in>set rows. container_name r \<in>
        {instance_name r @ ''-app'', instance_name r @ ''-postgres'', instance_name r @ ''-neo4j''})"


text \<open>The arguments of the existence query, and the host that answers it, at the time \<open>t\<close>,
  with success and an empty list (no container carries the label).\<close>

definition exists_query :: "string \<Rightarrow> string list" where
  "exists_query instanceName =
     [''ps'', ''-a'', ''--filter'', project_label instanceName, ''--format'', ''{{.Names}}'']"

definition answering_empty :: "host \<Rightarrow> nat \<Rightarrow> host" where
  "answering_empty h t =
     h\<lparr>run_command := (\<lambda>t' prog args envs.
           if t' = t then \<lparr>exit_ok = True, stdout = []\<rparr> else run_command h t' prog args envs)\<rparr>"



section \<open>Concrete hosts and worlds\<close>

text \<open>A host on which nothing fails: every path exists, every port is free, every command
  exits with status 0 and prints nothing, the secrets file is empty, the operator answers
  \<open>y\<close>.\<close>

definition join_slash :: "string list \<Rightarrow> string" where
  "join_slash elems = foldr (\<lambda>x acc. if acc = [] then x else x @ ''/'' @ acc) elems []"

definition quiet_result :: exec_result where
  "quiet_result = \<lparr>exit_ok = True, stdout = []\<rparr>"

definition quiet_host :: host where
  "quiet_host =
     \<lparr>os_Stat = (\<lambda>p. StatOk),
      filepath_Abs = Some,
      filepath_Join = join_slash,
      os_UserHomeDir = Some ''/home/u'',
      listen_fails = (\<lambda>p. False),
      run_command = (\<lambda>t prog args envs. quiet_result),
      os_CreateTemp = (\<lambda>pattern. Some (''/tmp/'' @ pattern)),
      write_fails = (\<lambda>p. False),
      scan_file = (\<lambda>p. Some ([], False)),
      stdin_ReadString = Some (''y'' @ [CHR 0x0A]),
      mkdir_fails = False,
      sql_open_fails = False,
      sql_fails = (\<lambda>stmt. False),
      rows_affected_fails = False,
      rows_scan_fails = False,
      current_timestamp = ''2025-01-01 00:00:00''\<rparr>"

text \<open>The same host with the containers of every instance listed by \<^verbatim>\<open>docker ps\<close>, and the
  same with a failing \<^verbatim>\<open>docker\<close> and \<^verbatim>\<open>docker-compose\<close>.\<close>

definition listing_result :: exec_result where
  "listing_result = \<lparr>exit_ok = True, stdout = ''graphsense-repo-app'' @ [CHR 0x0A]\<rparr>"

definition failing_result :: exec_result where
  "failing_result = \<lparr>exit_ok = False, stdout = []\<rparr>"

definition live_host :: host where
  "live_host = quiet_host\<lparr>run_command := (\<lambda>t prog args envs. listing_result)\<rparr>"

definition down_host :: host where
  "down_host = quiet_host\<lparr>run_command := (\<lambda>t prog args envs. failing_result)\<rparr>"

definition empty_world :: world where
  "empty_world = \<lparr>db = None, db_seq = 0, effects = [], console = []\<rparr>"

definition demo_config :: DeployConfig where
  "demo_config =
     \<lparr>RepoPath = ''/srv/repo'', InstanceName = ''graphsense-repo'', AppPort = 8080,
      PostgresPort = 8180, Neo4jBoltPort = 8280, CoAPIKey = [], AnthropicAPIKey = []\<rparr>"

definition demo_row :: "string \<Rightarrow> go_int \<Rightarrow> Instance" where
  "demo_row suffix i =
     \<lparr>row_id = i, instance_name = ''graphsense-repo'',
      container_name = ''graphsense-repo'' @ suffix, repo_path = ''/srv/repo'',
      app_port = 8080, postgres_port = 8180, neo4j_bolt_port = 8280,
      created_at = ''2025-01-01 00:00:00''\<rparr>"

text \<open>The world after a deployment of \<open>graphsense-repo\<close>: its three rows are in the store.\<close>

definition deployed_world :: world where
  "deployed_world =
     \<lparr>db = Some [demo_row ''-app'' 1, demo_row ''-postgres'' 2, demo_row ''-neo4j'' 3],
      db_seq = 3, effects = [], console = []\<rparr>"

text \<open>A host whose file system has no path at all, one whose operator answers \<open>no\<close>, one
  whose \<^verbatim>\<open>docker-compose\<close> fails while \<^verbatim>\<open>docker ps\<close> lists the containers, and one whose
  secrets file holds one of the two keys.\<close>

definition no_path_host :: host where
  "no_path_host = quiet_host\<lparr>os_Stat := (\<lambda>p. StatNotExist)\<rparr>"

definition declining_host :: host where
  "declining_host = live_host\<lparr>stdin_ReadString := Some (''no'' @ [CHR 0x0A])\<rparr>"

definition docker_only :: "nat \<Rightarrow> string \<Rightarrow> string list \<Rightarrow> env_vars \<Rightarrow> exec_result" where
  "docker_only t prog args envs = (if prog = ''docker'' then listing_result else failing_result)"

definition compose_failing_host :: host where
  "compose_failing_host = quiet_host\<lparr>run_command := docker_only\<rparr>"

definition one_key_host :: host where
  "one_key_host =
     quiet_host\<lparr>scan_file := (\<lambda>p. Some ([''# keys'', ''ANTHROPIC_API_KEY = sk-1''], False))\<rparr>"

text \<open>A host on which \<open>/etc/hostname\<close> is a regular file, so that there is no path
  \<open>/etc/hostname/repo\<close>, and on which \<^verbatim>\<open>docker ps\<close> lists nothing while \<^verbatim>\<open>docker-compose\<close>
  reports the services as up.\<close>

definition stat_below_file :: "string \<Rightarrow> stat_result" where
  "stat_below_file p = (if p = ''/etc/hostname/repo'' then StatNotDir else StatOk)"

definition up_result :: exec_result where
  "up_result = \<lparr>exit_ok = True, stdout = ''Up''\<rparr>"

definition compose_up :: "nat \<Rightarrow> string \<Rightarrow> string list \<Rightarrow> env_vars \<Rightarrow> exec_result" where
  "compose_up t prog args envs = (if prog = ''docker'' then quiet_result else up_result)"

definition below_file_host :: host where
  "below_file_host = quiet_host\<lparr>os_Stat := stat_below_file, run_command := compose_up\<rparr>"

definition below_file_config :: DeployConfig where
  "below_file_config =
     \<lparr>RepoPath = ''/etc/hostname/repo'', InstanceName = ''graphsense-repo'', AppPort = 8080,
      PostgresPort = 8180, Neo4jBoltPort = 8280, CoAPIKey = [], AnthropicAPIKey = []\<rparr>"

text \<open>A host on which exactly port 64995 is taken.\<close>

definition only_64995_taken :: "go_int \<Rightarrow> bool" where
  "only_64995_taken p \<longleftrightarrow> p = 64995"

text \<open>A host on which only the secrets file is missing.\<close>

definition stat_no_keys :: "string \<Rightarrow> stat_result" where
  "stat_no_keys p = (if p = ''/home/u/.graphsense/.env'' then StatNotExist else StatOk)"

definition no_keys_host :: host where
  "no_keys_host = quiet_host\<lparr>os_Stat := stat_no_keys\<rparr>"

section \<open>Properties of the instance names\<close>

lemma replace_runs_chars:
  "c \<in> set (replace_runs keep b s) \<Longrightarrow> keep c \<or> c = CHR ''-''"
  by (induction s arbitrary: b) (auto split: if_splits)

lemma replace_runs_keeps:
  "c \<in> set s \<Longrightarrow> keep c \<Longrightarrow> c \<in> set (replace_runs keep b s)"
  by (induction s arbitrary: b) auto

lemma replace_runs_ident:
  "\<forall>c\<in>set s. keep c \<Longrightarrow> replace_runs keep b s = s"
  by (induction s arbitrary: b) auto

lemma replace_runs_nonempty:
  "s \<noteq> [] \<Longrightarrow> replace_runs keep False s \<noteq> []"
  by (cases s) auto

lemma ToLower_nonempty: "s \<noteq> [] \<Longrightarrow> ToLower s \<noteq> []"
  by (cases s) auto

lemma Trim_hyphen_subset: "c \<in> set (Trim_hyphen s) \<Longrightarrow> c \<in> set s"
proof -
  assume "c \<in> set (Trim_hyphen s)"
  then have "c \<in> set (dropWhile (\<lambda>c. c = CHR ''-'') (rev (dropWhile (\<lambda>c. c = CHR ''-'') s)))"
    by (simp add: Trim_hyphen_def)
  then have "c \<in> set (rev (dropWhile (\<lambda>c. c = CHR ''-'') s))"
    by (rule set_dropWhileD)
  then have "c \<in> set (dropWhile (\<lambda>c. c = CHR ''-'') s)"
    by simp
  then show "c \<in> set s"
    by (rule set_dropWhileD)
qed

lemma last_dropWhile: "dropWhile P xs \<noteq> [] \<Longrightarrow> last (dropWhile P xs) = last xs"
  by (induction xs) (auto split: if_splits)

lemma Trim_hyphen_ends:
  assumes "Trim_hyphen s \<noteq> []"
  shows "hd (Trim_hyphen s) \<noteq> CHR ''-''" and "last (Trim_hyphen s) \<noteq> CHR ''-''"
proof -
  define a where "a = dropWhile (\<lambda>c. c = CHR ''-'') s"
  define b where "b = dropWhile (\<lambda>c. c = CHR ''-'') (rev a)"
  have T: "Trim_hyphen s = rev b"
    by (simp only: Trim_hyphen_def a_def b_def)
  from assms have b: "b \<noteq> []"
    by (simp only: T rev_is_Nil_conv not_False_eq_True)
  have a: "a \<noteq> []"
  proof
    assume "a = []"
    then have "b = []" by (simp add: b_def)
    with b show False by simp
  qed
  have hb: "hd b \<noteq> CHR ''-''"
    using b unfolding b_def by (rule hd_dropWhile)
  have ha: "hd a \<noteq> CHR ''-''"
    using a unfolding a_def by (rule hd_dropWhile)
  have "last (Trim_hyphen s) = hd b"
    by (simp only: T last_rev)
  then show "last (Trim_hyphen s) \<noteq> CHR ''-''"
    using hb by simp
  have "hd (Trim_hyphen s) = last b"
    by (simp only: T hd_rev)
  also have "\<dots> = last (rev a)"
    using b unfolding b_def by (rule last_dropWhile)
  also have "\<dots> = hd a"
    by (simp only: last_rev)
  finally show "hd (Trim_hyphen s) \<noteq> CHR ''-''"
    using ha by simp
qed

lemma dropWhile_keeps: "c \<in> set xs \<Longrightarrow> \<not> P c \<Longrightarrow> c \<in> set (dropWhile P xs)"
  by (induction xs) auto

lemma Trim_hyphen_keeps: "c \<in> set s \<Longrightarrow> c \<noteq> CHR ''-'' \<Longrightarrow> c \<in> set (Trim_hyphen s)"
  by (simp add: Trim_hyphen_def dropWhile_keeps)

lemma lower_alnum_not_hyphen: "lower_alnum c \<Longrightarrow> c \<noteq> CHR ''-''"
  by (auto simp: lower_alnum_def ascii_lower_def ascii_digit_def)

lemma graphsense_prefix_chars: "c \<in> set ''graphsense-'' \<Longrightarrow> lower_alnum_hyphen c"
  by (auto simp: lower_alnum_hyphen_def lower_alnum_def ascii_lower_def)

lemma GenerateInstanceName_chars:
  "c \<in> set (GenerateInstanceName p) \<Longrightarrow> lower_alnum_hyphen c"
proof -
  assume "c \<in> set (GenerateInstanceName p)"
  then consider "c \<in> set ''graphsense-''"
    | "c \<in> set (Trim_hyphen (replace_runs lower_alnum False (ToLower (filepath_Base p))))"
    unfolding GenerateInstanceName_def Let_def set_append by blast
  then show ?thesis
  proof cases
    case 1
    then show ?thesis by (rule graphsense_prefix_chars)
  next
    case 2
    then show ?thesis
      using replace_runs_chars [of c lower_alnum False] Trim_hyphen_subset [of c]
      by (auto simp: lower_alnum_hyphen_def)
  qed
qed

lemma SanitizeInstanceName_chars:
  "c \<in> set (SanitizeInstanceName n) \<Longrightarrow> lower_alnum_hyphen c"
  using replace_runs_chars [of c lower_alnum_hyphen False]
  by (auto simp: SanitizeInstanceName_def lower_alnum_hyphen_def)

lemma lower_byte_not_upper: "c \<notin> set ascii_upper \<Longrightarrow> lower_byte c = c"
proof -
  assume "c \<notin> set ascii_upper"
  moreover have "length ascii_upper = length ascii_lower"
    by (simp add: ascii_upper_def ascii_lower_def)
  ultimately have "map_of (zip ascii_upper ascii_lower) c = None"
    by (simp add: map_of_zip_is_None)
  then show ?thesis by (simp add: lower_byte_def)
qed

lemma allowed_not_upper: "lower_alnum_hyphen c \<Longrightarrow> c \<notin> set ascii_upper"
  unfolding lower_alnum_hyphen_def lower_alnum_def ascii_lower_def ascii_digit_def ascii_upper_def
  by (elim disjE) auto

lemma lower_byte_fix: "lower_alnum_hyphen c \<Longrightarrow> lower_byte c = c"
  by (simp add: lower_byte_not_upper allowed_not_upper)

lemma ToLower_ident: "\<forall>c\<in>set s. lower_alnum_hyphen c \<Longrightarrow> ToLower s = s"
proof (induction s rule: ToLower.induct)
  case 1
  then show ?case by simp
next
  case (2 c cs)
  have c: "lower_alnum_hyphen c" using "2.prems" by simp
  then have "c \<noteq> CHR 0xE2" "c \<noteq> CHR 0xC4"
    by (auto simp: lower_alnum_hyphen_def lower_alnum_def ascii_lower_def ascii_digit_def)
  then show ?case using 2 c by (simp add: lower_byte_fix)
qed

lemma Sanitize_Generate: "SanitizeInstanceName (GenerateInstanceName p) = GenerateInstanceName p"
proof -
  have all: "\<forall>c\<in>set (GenerateInstanceName p). lower_alnum_hyphen c"
    using GenerateInstanceName_chars by blast
  then show ?thesis
    by (simp add: SanitizeInstanceName_def ToLower_ident replace_runs_ident)
qed

lemma GenerateInstanceName_last:
  assumes "\<exists>c\<in>set (ToLower (filepath_Base p)). lower_alnum c"
  shows "last (GenerateInstanceName p) \<noteq> CHR ''-''"
proof -
  let ?t = "Trim_hyphen (replace_runs lower_alnum False (ToLower (filepath_Base p)))"
  from assms obtain c where c: "c \<in> set (ToLower (filepath_Base p))" "lower_alnum c" by blast
  then have "c \<in> set ?t"
    by (simp add: replace_runs_keeps Trim_hyphen_keeps lower_alnum_not_hyphen)
  then have ne: "?t \<noteq> []" by auto
  then have "last ?t \<noteq> CHR ''-''" by (rule Trim_hyphen_ends)
  then show ?thesis using ne by (simp add: GenerateInstanceName_def)
qed

lemma deploy_instance_name_generated:
  "deploy_instance_name p [] = GenerateInstanceName p"
  by (simp add: deploy_instance_name_def Sanitize_Generate)

lemmas name_evals = deploy_instance_name_def GenerateInstanceName_def SanitizeInstanceName_def filepath_Base_def
    lower_byte_def ascii_upper_def ascii_lower_def ascii_digit_def lower_alnum_def lower_alnum_hyphen_def Trim_hyphen_def

text \<open>Claim C4, as stated, fails: a supplied name keeps its leading and trailing hyphens
  (\<^verbatim>\<open>SanitizeInstanceName\<close> does not trim), and the name generated for the path \<open>/\<close> is
  \<open>graphsense-\<close>, which ends with a hyphen.\<close>

theorem C4_name_with_outer_hyphens:
  "deploy_instance_name ''/'' '''' = ''graphsense-''
   \<and> deploy_instance_name ''/srv/repo'' ''My_App_'' = ''my-app-''
   \<and> deploy_instance_name ''/srv/repo'' ''-x'' = ''-x''
   \<and> last (deploy_instance_name ''/srv/repo'' ''My_App_'') = CHR ''-''
   \<and> hd (deploy_instance_name ''/srv/repo'' ''-x'') = CHR ''-''"
  by (simp add: name_evals)

text \<open>Claim C4, amended: for every repository path and every supplied name, the instance
  name used by deploy is not empty and contains only lowercase ASCII letters, digits and
  hyphens. A name generated from the path (no name supplied) starts with \<open>graphsense-\<close>,
  hence has no leading hyphen, and has no trailing hyphen when the final path component,
  lowered, contains at least one letter or digit. (A supplied name is sanitized without
  trimming.)\<close>

theorem C4_instance_name_charset:
  "(\<forall>c\<in>set (deploy_instance_name repoPath instanceName). lower_alnum_hyphen c)
   \<and> deploy_instance_name repoPath instanceName \<noteq> []
   \<and> (instanceName = [] \<longrightarrow>
        take 11 (deploy_instance_name repoPath instanceName) = ''graphsense-''
        \<and> ((\<exists>c\<in>set (ToLower (filepath_Base repoPath)). lower_alnum c) \<longrightarrow>
             last (deploy_instance_name repoPath instanceName) \<noteq> CHR ''-''))"
proof (intro conjI ballI impI)
  fix c assume "c \<in> set (deploy_instance_name repoPath instanceName)"
  then show "lower_alnum_hyphen c"
    unfolding deploy_instance_name_def by (rule SanitizeInstanceName_chars)
next
  show "deploy_instance_name repoPath instanceName \<noteq> []"
  proof (cases "instanceName = []")
    case True
    then show ?thesis
      by (simp add: deploy_instance_name_generated) (simp add: GenerateInstanceName_def)
  next
    case False
    then show ?thesis
      by (simp add: deploy_instance_name_def SanitizeInstanceName_def
        replace_runs_nonempty ToLower_nonempty)
  qed
next
  assume "instanceName = []"
  then show "take 11 (deploy_instance_name repoPath instanceName) = ''graphsense-''"
    by (simp add: deploy_instance_name_generated) (simp add: GenerateInstanceName_def)
next
  assume "instanceName = []" "\<exists>c\<in>set (ToLower (filepath_Base repoPath)). lower_alnum c"
  then show "last (deploy_instance_name repoPath instanceName) \<noteq> CHR ''-''"
    by (simp add: deploy_instance_name_generated GenerateInstanceName_last)
qed

theorem C4_instance_name_charset_witness:
  "lower_alnum (CHR ''m'') \<and> CHR ''m'' \<in> set (ToLower (filepath_Base ''/home/u/My Repo_2.0/''))
   \<and> deploy_instance_name ''/home/u/My Repo_2.0/'' [] = ''graphsense-my-repo-2-0''
   \<and> last (deploy_instance_name ''/home/u/My Repo_2.0/'' []) \<noteq> CHR ''-''"
proof -
  have m: "lower_alnum (CHR ''m'')" by (simp add: lower_alnum_def ascii_lower_def)
  have inb: "CHR ''m'' \<in> set (ToLower (filepath_Base ''/home/u/My Repo_2.0/''))"
    by (simp add: name_evals)
  have ex: "\<exists>c\<in>set (ToLower (filepath_Base ''/home/u/My Repo_2.0/'')). lower_alnum c"
    using m inb by blast
  have v: "deploy_instance_name ''/home/u/My Repo_2.0/'' [] = ''graphsense-my-repo-2-0''"
    by (simp add: name_evals)
  show ?thesis
    using C4_instance_name_charset [of "''/home/u/My Repo_2.0/''" "[]"] m inb ex v by blast
qed

section \<open>Properties of the port allocator\<close>

lemma sint_plus10: "sint (p::go_int) \<le> 65000 \<Longrightarrow> sint (p + 10) = sint p + 10"
proof -
  assume "sint p \<le> 65000"
  moreover have "- (2 ^ 63) \<le> sint p"
    using sint_ge [of p] by simp
  ultimately have "signed_take_bit 63 (sint p + 10) = sint p + 10"
    by (intro signed_take_bit_int_eq_self) simp_all
  then show ?thesis
    by (simp add: sint_word_ariths)
qed

lemma loop_in_use:
  "port_set_in_use lf port \<Longrightarrow>
   FindAvailablePortSet_loop lf b port =
     (if 65000 <s port + 10 then Inl (ErrNoPortSet b)
      else FindAvailablePortSet_loop lf b (port + 10))"
  by (subst FindAvailablePortSet_loop.simps) (simp add: port_set_in_use_def Let_def)

lemma loop_free:
  "\<not> port_set_in_use lf port \<Longrightarrow> FindAvailablePortSet_loop lf b port = Inr port"
  by (subst FindAvailablePortSet_loop.simps) (simp add: port_set_in_use_def Let_def)

lemma loop_retry:
  "\<forall>j<k. port_set_in_use lf (p + 10 * of_nat j) \<Longrightarrow>
   \<not> port_set_in_use lf (p + 10 * of_nat k) \<Longrightarrow>
   (0 < k \<longrightarrow> sint p + 10 * int k \<le> 65000) \<Longrightarrow>
   FindAvailablePortSet_loop lf b p = Inr (p + 10 * of_nat k)"
proof (induction k arbitrary: p)
  case 0
  then show ?case by (simp add: loop_free)
next
  case (Suc k)
  have busy: "port_set_in_use lf p"
    using Suc.prems(1) [rule_format, of 0] by simp
  from Suc.prems(3) have small: "sint p \<le> 64990" by simp
  then have s10: "sint (p + 10) = sint p + 10" by (simp add: sint_plus10)
  then have nolim: "\<not> 65000 <s p + 10" using small by (simp add: word_sless_alt)
  have step: "p + 10 * of_nat (Suc j) = p + 10 + 10 * of_nat j" for j
    by (simp add: algebra_simps)
  have "FindAvailablePortSet_loop lf b (p + 10) = Inr (p + 10 + 10 * of_nat k)"
  proof (rule Suc.IH)
    show "\<forall>j<k. port_set_in_use lf (p + 10 + 10 * of_nat j)"
    proof (intro allI impI)
      fix j assume "j < k"
      then show "port_set_in_use lf (p + 10 + 10 * of_nat j)"
        using Suc.prems(1) [rule_format, of "Suc j"] by (simp only: step Suc_less_eq)
    qed
    show "\<not> port_set_in_use lf (p + 10 + 10 * of_nat k)"
      using Suc.prems(2) unfolding step .
    show "0 < k \<longrightarrow> sint (p + 10) + 10 * int k \<le> 65000"
      using Suc.prems(3) s10 by simp
  qed
  then show ?case
    using busy nolim by (simp only: loop_in_use step if_False)
qed

lemma port_set_next_disjoint: "port_set p \<inter> port_set (p + 10) = {}"
  by (simp add: port_set_def)

lemma cand_Suc: "p + 10 * of_nat (Suc j) = p + 10 + 10 * (of_nat j :: go_int)"
  by (simp add: algebra_simps)

lemma loop_Inr_tied:
  "FindAvailablePortSet_loop lf b p = Inr q \<Longrightarrow>
   \<exists>k. q = p + 10 * of_nat k \<and> \<not> port_set_in_use lf q
     \<and> (\<forall>j<k. port_set_in_use lf (p + 10 * of_nat j) \<and> \<not> 65000 <s p + 10 * of_nat j + 10)"
proof (induction lf b p rule: FindAvailablePortSet_loop.induct)
  case (1 lf basePort port)
  show ?case
  proof (cases "port_set_in_use lf port")
    case False
    then have "q = port" using "1.prems" by (simp add: loop_free)
    then show ?thesis using False by (intro exI [of _ 0]) simp
  next
    case True
    show ?thesis
    proof (cases "65000 <s port + 10")
      case lim: True
      then show ?thesis using True "1.prems" by (simp add: loop_in_use)
    next
      case lim: False
      have r: "FindAvailablePortSet_loop lf basePort (port + 10) = Inr q"
        using True lim "1.prems" by (simp add: loop_in_use)
      have c: "isPortInUse lf port \<or> isPortInUse lf (port + 100) \<or> isPortInUse lf (port + 200)"
        using True by (simp add: port_set_in_use_def)
      from "1.IH" [OF refl refl refl c refl lim r] obtain k where
        q: "q = port + 10 + 10 * of_nat k" and free: "\<not> port_set_in_use lf q"
        and busy: "\<forall>j<k. port_set_in_use lf (port + 10 + 10 * of_nat j)
                      \<and> \<not> 65000 <s port + 10 + 10 * of_nat j + 10"
        by blast
      have "\<forall>j<Suc k. port_set_in_use lf (port + 10 * of_nat j)
                      \<and> \<not> 65000 <s port + 10 * of_nat j + 10"
      proof (intro allI impI)
        fix j assume j: "j < Suc k"
        show "port_set_in_use lf (port + 10 * of_nat j) \<and> \<not> 65000 <s port + 10 * of_nat j + 10"
        proof (cases j)
          case 0
          then show ?thesis using True lim by simp
        next
          case (Suc j')
          then have jk: "j' < k" using j by simp
          show ?thesis using busy [rule_format, OF jk] unfolding Suc cand_Suc .
        qed
      qed
      moreover have "q = port + 10 * of_nat (Suc k)"
        using q by (simp only: cand_Suc)
      ultimately show ?thesis using free by (intro exI [of _ "Suc k"] conjI)
    qed
  qed
qed

lemma loop_Inl_tied:
  "FindAvailablePortSet_loop lf b p = Inl e \<Longrightarrow>
   e = ErrNoPortSet b
   \<and> (\<exists>k. (\<forall>j\<le>k. port_set_in_use lf (p + 10 * of_nat j))
        \<and> (\<forall>j<k. \<not> 65000 <s p + 10 * of_nat j + 10)
        \<and> 65000 <s p + 10 * of_nat k + 10)"
proof (induction lf b p rule: FindAvailablePortSet_loop.induct)
  case (1 lf basePort port)
  show ?case
  proof (cases "port_set_in_use lf port")
    case False
    then show ?thesis using "1.prems" by (simp add: loop_free)
  next
    case True
    show ?thesis
    proof (cases "65000 <s port + 10")
      case lim: True
      then have "e = ErrNoPortSet basePort" using True "1.prems" by (simp add: loop_in_use)
      moreover have "(\<forall>j\<le>0. port_set_in_use lf (port + 10 * of_nat j))
        \<and> (\<forall>j<0. \<not> 65000 <s port + 10 * of_nat j + 10)
        \<and> 65000 <s port + 10 * of_nat 0 + 10"
        using True lim by simp
      ultimately show ?thesis by (intro conjI exI [of _ 0]) simp_all
    next
      case lim: False
      have r: "FindAvailablePortSet_loop lf basePort (port + 10) = Inl e"
        using True lim "1.prems" by (simp add: loop_in_use)
      have c: "isPortInUse lf port \<or> isPortInUse lf (port + 100) \<or> isPortInUse lf (port + 200)"
        using True by (simp add: port_set_in_use_def)
      from "1.IH" [OF refl refl refl c refl lim r] obtain k where
        e: "e = ErrNoPortSet basePort"
        and busy: "\<forall>j\<le>k. port_set_in_use lf (port + 10 + 10 * of_nat j)"
        and below: "\<forall>j<k. \<not> 65000 <s port + 10 + 10 * of_nat j + 10"
        and over: "65000 <s port + 10 + 10 * of_nat k + 10"
        by blast
      have b': "\<forall>j\<le>Suc k. port_set_in_use lf (port + 10 * of_nat j)"
      proof (intro allI impI)
        fix j assume j: "j \<le> Suc k"
        show "port_set_in_use lf (port + 10 * of_nat j)"
        proof (cases j)
          case 0
          then show ?thesis using True by simp
        next
          case (Suc j')
          then have jk: "j' \<le> k" using j by simp
          show ?thesis using busy [rule_format, OF jk] unfolding Suc cand_Suc .
        qed
      qed
      have l': "\<forall>j<Suc k. \<not> 65000 <s port + 10 * of_nat j + 10"
      proof (intro allI impI)
        fix j assume j: "j < Suc k"
        show "\<not> 65000 <s port + 10 * of_nat j + 10"
        proof (cases j)
          case 0
          then show ?thesis using lim by simp
        next
          case (Suc j')
          then have jk: "j' < k" using j by simp
          show ?thesis using below [rule_format, OF jk] unfolding Suc cand_Suc .
        qed
      qed
      have o': "65000 <s port + 10 * of_nat (Suc k) + 10"
        using over by (simp only: cand_Suc)
      show ?thesis
        using e b' l' o' by (intro conjI exI [of _ "Suc k"])
    qed
  qed
qed

text \<open>Claim C2, as stated: an occupied triple makes the allocator advance the base by an
  increment larger than the maximum offset 200. On a host where only port 8080 is taken,
  the allocator started at 8080 answers 8090: the increment is 10, which is not larger
  than 200.\<close>

theorem C2_increment_not_above_max_offset:
  "FindAvailablePortSet only_8080_taken 8080 = Inr 8090 \<and> \<not> (8080 + 200 <s (8090 :: go_int))"
  by code_simp

text \<open>Claim C2, amended: whenever a port of the candidate triple is occupied the allocator
  advances the base by the fixed increment 10 (smaller than the maximum offset 200). The
  candidates are, in this order, \<open>base\<close>, \<open>base + 10\<close>, \<open>base + 20\<close>, ... (\<open>base\<close> being
  8080 when the given base is 0): when the first \<open>k\<close> of them have an occupied triple, the
  next one has a free triple and does not exceed 65000, the allocator returns
  \<open>base + 10 * k\<close>, a function of the base and of the occupied ports only. The triple of a
  candidate and the triple of the next candidate have no port in common.\<close>

theorem C2_retry_sequence_step_10:
  assumes "base = (if basePort = 0 then DefaultBasePort else basePort)"
    and "\<forall>j<k. port_set_in_use lf (base + 10 * of_nat j)"
    and "\<not> port_set_in_use lf (base + 10 * of_nat k)"
    and "0 < k \<longrightarrow> sint base + 10 * int k \<le> 65000"
  shows "FindAvailablePortSet lf basePort = Inr (base + 10 * of_nat k)
    \<and> port_set (base + 10 * of_nat j) \<inter> port_set (base + 10 * of_nat j + 10) = {}"
proof -
  have "FindAvailablePortSet_loop lf base base = Inr (base + 10 * of_nat k)"
    using assms(2-4) by (rule loop_retry)
  then have "FindAvailablePortSet lf basePort = Inr (base + 10 * of_nat k)"
    using assms(1) by (simp add: FindAvailablePortSet_def)
  then show ?thesis
    by (simp add: port_set_next_disjoint)
qed

theorem C2_retry_sequence_step_10_witness:
  "port_set_in_use taken_8080_8190 8080
   \<and> port_set_in_use taken_8080_8190 8090
   \<and> \<not> port_set_in_use taken_8080_8190 8100
   \<and> FindAvailablePortSet taken_8080_8190 8080 = Inr 8100
   \<and> port_set (8090 :: go_int) \<inter> port_set 8100 = {}"
proof -
  have b0: "port_set_in_use taken_8080_8190 8080"
    and b1: "port_set_in_use taken_8080_8190 8090"
    and free: "\<not> port_set_in_use taken_8080_8190 8100"
    by (simp_all add: port_set_in_use_def isPortInUse_def taken_8080_8190_def)
  have busy: "\<forall>j<2. port_set_in_use taken_8080_8190 (8080 + 10 * of_nat j)"
  proof (intro allI impI)
    fix j :: nat assume "j < 2"
    then have "j = 0 \<or> j = 1" by auto
    then show "port_set_in_use taken_8080_8190 (8080 + 10 * of_nat j)"
      using b0 b1 by auto
  qed
  have free': "\<not> port_set_in_use taken_8080_8190 (8080 + 10 * of_nat (2::nat))"
    using free by simp
  have small: "0 < (2::nat) \<longrightarrow> sint (8080 :: go_int) + 10 * int 2 \<le> 65000"
    by simp
  have base: "(8080 :: go_int) = (if (8080 :: go_int) = 0 then DefaultBasePort else 8080)"
    by simp
  show ?thesis
    using C2_retry_sequence_step_10 [OF base busy free' small, of 1] b0 b1 free
    by simp
qed

text \<open>Claim C3, as stated, says that the capacity error comes once the candidate base
  exceeds the upper bound of the valid port range, which is 65535. The code tests its own
  limit 65000: on a host where only port 64995 is taken, the allocator started at 64995
  returns the capacity error, although the next candidate 65005 has a free triple that
  lies within the valid port range.\<close>

theorem C3_capacity_error_inside_port_range:
  "FindAvailablePortSet only_64995_taken 64995 = Inl (ErrNoPortSet 64995)
   \<and> \<not> port_set_in_use only_64995_taken 65005
   \<and> (65005 + 200 :: go_int) \<le>s 65535"
  by code_simp

text \<open>Claim C3, amended: for every host and every starting base the allocator terminates
  (it is a total function: the loop is defined with a measure that decreases at every
  iteration, wrap-around of the 64-bit integer included). It probes the candidates
  \<open>base\<close>, \<open>base + 10\<close>, \<open>base + 20\<close>, ... in this order (\<open>base\<close> being 8080 when the
  given base is 0) and
  \<^item> either returns the first candidate whose three ports were all free when probed, no
    earlier candidate having had a successor above 65000,
  \<^item> or returns the capacity error at the first candidate whose successor exceeds the
    limit 65000 of the code, all candidates up to it having had an occupied triple.
  The limit is tested after an increment only, so the starting base is probed whatever
  its value.\<close>

theorem C3_allocator_total_first_free_or_limit:
  assumes "base = (if basePort = 0 then DefaultBasePort else basePort)"
  shows "(\<exists>k. FindAvailablePortSet lf basePort = Inr (base + 10 * of_nat k)
        \<and> \<not> isPortInUse lf (base + 10 * of_nat k)
        \<and> \<not> isPortInUse lf (base + 10 * of_nat k + 100)
        \<and> \<not> isPortInUse lf (base + 10 * of_nat k + 200)
        \<and> (\<forall>j<k. port_set_in_use lf (base + 10 * of_nat j)
                  \<and> \<not> 65000 <s base + 10 * of_nat j + 10))
   \<or> (\<exists>k. FindAvailablePortSet lf basePort = Inl (ErrNoPortSet base)
        \<and> (\<forall>j\<le>k. port_set_in_use lf (base + 10 * of_nat j))
        \<and> (\<forall>j<k. \<not> 65000 <s base + 10 * of_nat j + 10)
        \<and> 65000 <s base + 10 * of_nat k + 10)"
proof -
  have f: "FindAvailablePortSet lf basePort = FindAvailablePortSet_loop lf base base"
    using assms by (simp add: FindAvailablePortSet_def)
  show ?thesis
  proof (cases "FindAvailablePortSet_loop lf base base")
    case (Inl e)
    from loop_Inl_tied [OF Inl] obtain k where
      "e = ErrNoPortSet base"
      "\<forall>j\<le>k. port_set_in_use lf (base + 10 * of_nat j)"
      "\<forall>j<k. \<not> 65000 <s base + 10 * of_nat j + 10"
      "65000 <s base + 10 * of_nat k + 10"
      by blast
    then have "FindAvailablePortSet lf basePort = Inl (ErrNoPortSet base)
        \<and> (\<forall>j\<le>k. port_set_in_use lf (base + 10 * of_nat j))
        \<and> (\<forall>j<k. \<not> 65000 <s base + 10 * of_nat j + 10)
        \<and> 65000 <s base + 10 * of_nat k + 10"
      using f Inl by simp
    then show ?thesis by (intro disjI2 exI [of _ k])
  next
    case (Inr q)
    from loop_Inr_tied [OF Inr] obtain k where
      q: "q = base + 10 * of_nat k" and free: "\<not> port_set_in_use lf q"
      and busy: "\<forall>j<k. port_set_in_use lf (base + 10 * of_nat j)
                      \<and> \<not> 65000 <s base + 10 * of_nat j + 10"
      by blast
    have "FindAvailablePortSet lf basePort = Inr (base + 10 * of_nat k)
        \<and> \<not> isPortInUse lf (base + 10 * of_nat k)
        \<and> \<not> isPortInUse lf (base + 10 * of_nat k + 100)
        \<and> \<not> isPortInUse lf (base + 10 * of_nat k + 200)
        \<and> (\<forall>j<k. port_set_in_use lf (base + 10 * of_nat j)
                  \<and> \<not> 65000 <s base + 10 * of_nat j + 10)"
      using f Inr q free busy by (simp add: port_set_in_use_def)
    then show ?thesis by (intro disjI1 exI [of _ k])
  qed
qed

theorem C3_allocator_total_first_free_or_limit_witness:
  "(64995 :: go_int) = (if (64995 :: go_int) = 0 then DefaultBasePort else 64995)
   \<and> (\<exists>k::nat. FindAvailablePortSet only_64995_taken 64995 = Inl (ErrNoPortSet 64995)
        \<and> port_set_in_use only_64995_taken (64995 + 10 * of_nat k)
        \<and> 65000 <s (64995 :: go_int) + 10 * of_nat k + 10)"
proof -
  have base: "(64995 :: go_int) = (if (64995 :: go_int) = 0 then DefaultBasePort else 64995)"
    by simp
  have r: "FindAvailablePortSet only_64995_taken 64995 = Inl (ErrNoPortSet 64995)"
    by code_simp
  from C3_allocator_total_first_free_or_limit [OF base, of only_64995_taken] r obtain k where
    "\<forall>j\<le>k. port_set_in_use only_64995_taken (64995 + 10 * of_nat j)"
    "65000 <s (64995 :: go_int) + 10 * of_nat k + 10"
    by auto
  then have "FindAvailablePortSet only_64995_taken 64995 = Inl (ErrNoPortSet 64995)
        \<and> port_set_in_use only_64995_taken (64995 + 10 * of_nat k)
        \<and> 65000 <s (64995 :: go_int) + 10 * of_nat k + 10"
    using r by simp
  then have "\<exists>k::nat. FindAvailablePortSet only_64995_taken 64995 = Inl (ErrNoPortSet 64995)
        \<and> port_set_in_use only_64995_taken (64995 + 10 * of_nat k)
        \<and> 65000 <s (64995 :: go_int) + 10 * of_nat k + 10"
    by (intro exI)
  then show ?thesis using base by (intro conjI)
qed

section \<open>Properties of the durable store\<close>

lemmas host_evals = quiet_host_def live_host_def down_host_def quiet_result_def listing_result_def
  failing_result_def join_slash_def no_path_host_def declining_host_def docker_only_def
  compose_failing_host_def one_key_host_def no_keys_host_def stat_no_keys_def
  below_file_host_def stat_below_file_def up_result_def compose_up_def

lemmas trims = TrimSpace_def space_prefix_len_def space_suffix_len_def ascii_space_def
    unicode_space_def

lemma InitDB_rows: "rows_of (snd (InitDB h w)) = rows_of w"
  by (auto simp: InitDB_def rows_of_def log_def Let_def split: option.splits)

lemma InitDB_Inr: "InitDB h w = (Inr u, w') \<Longrightarrow> db w' \<noteq> None \<and> rows_of w' = rows_of w"
  using InitDB_rows [of h w]
  by (auto simp: InitDB_def Let_def split: option.splits if_splits)

lemma InitDB_ok_existing:
  "InitDB_ok h \<Longrightarrow> db w \<noteq> None \<Longrightarrow> InitDB h w = (Inr (), w)"
  by (auto simp: InitDB_def InitDB_ok_def rows_of_def Let_def)

lemma rows_of_log [simp]: "rows_of (log l w) = rows_of w"
  by (simp add: rows_of_def log_def)

lemma db_log [simp]: "db (log l w) = db w"
  by (simp add: log_def)

lemma rows_insert:
  "\<exists>r. rows_of (insert_or_replace h w c cn) =
         filter (\<lambda>r. \<not> (instance_name r = InstanceName c \<and> container_name r = cn)) (rows_of w) @ [r]
       \<and> container_name r = cn \<and> row_of_config c r"
  by (simp add: insert_or_replace_def Let_def rows_of_def row_of_config_def)

lemma db_insert: "db (insert_or_replace h w c cn) \<noteq> None"
  by (simp add: insert_or_replace_def Let_def)

lemma store_rows_None:
  "store_rows h w c cns = (None, w') \<Longrightarrow> distinct cns \<Longrightarrow>
   \<exists>rs. rows_of w' =
          filter (\<lambda>r. \<not> (instance_name r = InstanceName c \<and> container_name r \<in> set cns)) (rows_of w) @ rs
        \<and> map container_name rs = cns \<and> (\<forall>r\<in>set rs. row_of_config c r)"
proof (induction cns arbitrary: w)
  case Nil
  then show ?case by simp
next
  case (Cons cn cns)
  let ?w1 = "insert_or_replace h w c cn"
  from Cons.prems(1) have ok: "store_rows h ?w1 c cns = (None, w')"
    by (simp split: if_splits)
  from Cons.prems(2) have d: "distinct cns" and notin: "cn \<notin> set cns" by simp_all
  from Cons.IH [OF ok d] obtain rs where
    rs: "rows_of w' =
          filter (\<lambda>r. \<not> (instance_name r = InstanceName c \<and> container_name r \<in> set cns)) (rows_of ?w1) @ rs"
    and names: "map container_name rs = cns" and cfg: "\<forall>r\<in>set rs. row_of_config c r"
    by blast
  from rows_insert [of h w c cn] obtain r where
    r: "rows_of ?w1 =
         filter (\<lambda>r. \<not> (instance_name r = InstanceName c \<and> container_name r = cn)) (rows_of w) @ [r]"
    and rn: "container_name r = cn" and rc: "row_of_config c r"
    by blast
  have "rows_of w' =
      filter (\<lambda>r. \<not> (instance_name r = InstanceName c \<and> container_name r \<in> set (cn # cns))) (rows_of w)
      @ (r # rs)"
    unfolding rs r using rn notin
    by (auto intro: filter_cong)
  moreover have "map container_name (r # rs) = cn # cns"
    using rn names by simp
  moreover have "\<forall>x\<in>set (r # rs). row_of_config c x"
    using rc cfg by simp
  ultimately show ?case by (intro exI [of _ "r # rs"] conjI)
qed

lemma store_rows_wf:
  "store_rows h w c cns = (e, w') \<Longrightarrow> store_wf (rows_of w) \<Longrightarrow>
   set cns \<subseteq> set (containerNames c) \<Longrightarrow> store_wf (rows_of w') \<and> (db w \<noteq> None \<longrightarrow> db w' \<noteq> None)"
proof (induction cns arbitrary: w)
  case Nil
  then show ?case by simp
next
  case (Cons cn cns)
  show ?case
  proof (cases "sql_fails h (InsertOrReplace (InstanceName c) cn)")
    case True
    then show ?thesis using Cons.prems by simp
  next
    case False
    let ?w1 = "insert_or_replace h w c cn"
    from False Cons.prems(1) have ok: "store_rows h ?w1 c cns = (e, w')" by simp
    from rows_insert [of h w c cn] obtain r where
      r: "rows_of ?w1 =
           filter (\<lambda>r. \<not> (instance_name r = InstanceName c \<and> container_name r = cn)) (rows_of w) @ [r]"
      and rn: "container_name r = cn" and rc: "row_of_config c r"
      by blast
    have "cn \<in> set (containerNames c)" using Cons.prems(3) by simp
    then have "container_name r \<in>
        {instance_name r @ ''-app'', instance_name r @ ''-postgres'', instance_name r @ ''-neo4j''}"
      using rn rc by (auto simp: containerNames_def row_of_config_def)
    then have wf1: "store_wf (rows_of ?w1)"
      using Cons.prems(2) unfolding r store_wf_def by auto
    from Cons.IH [OF ok wf1] Cons.prems(3) db_insert [of h w c cn] show ?thesis by simp
  qed
qed


lemma Store_result:
  "StoreInstanceContainers h w c = (e, w') \<Longrightarrow>
   (\<exists>w0 e0 w1. InitDB h w = (e0, w0) \<and> rows_of w0 = rows_of w
      \<and> ((\<exists>err. e0 = Inl err \<and> e = Some err \<and> w' = w0)
         \<or> (e0 = Inr () \<and> db w0 \<noteq> None \<and> store_rows h w0 c (containerNames c) = (e, w1)
            \<and> rows_of w' = rows_of w1 \<and> (db w1 \<noteq> None \<longrightarrow> db w' \<noteq> None))))"
proof -
  assume a: "StoreInstanceContainers h w c = (e, w')"
  obtain e0 w0 where i: "InitDB h w = (e0, w0)" by (cases "InitDB h w")
  have r0: "rows_of w0 = rows_of w" using InitDB_rows [of h w] i by simp
  show ?thesis
  proof (cases e0)
    case (Inl err)
    then show ?thesis using a i r0 by (simp add: StoreInstanceContainers_def)
  next
    case (Inr u)
    obtain e1 w1 where s: "store_rows h w0 c (containerNames c) = (e1, w1)"
      by (cases "store_rows h w0 c (containerNames c)")
    have d0: "db w0 \<noteq> None" using InitDB_Inr i Inr by blast
    show ?thesis
      using a i r0 Inr s d0
      by (cases e1) (auto simp: StoreInstanceContainers_def)
  qed
qed

lemma containerNames_distinct: "distinct (containerNames c)"
  by (simp add: containerNames_def)

lemma Store_wf:
  assumes "store_wf (rows_of w)"
  shows "store_wf (rows_of (snd (StoreInstanceContainers h w c)))"
proof -
  obtain e w' where a: "StoreInstanceContainers h w c = (e, w')"
    by (cases "StoreInstanceContainers h w c")
  from Store_result [OF a] obtain w0 e0 w1 where
    r0: "rows_of w0 = rows_of w" and
    alt: "(\<exists>err. e0 = Inl err \<and> e = Some err \<and> w' = w0)
         \<or> (e0 = Inr () \<and> db w0 \<noteq> None \<and> store_rows h w0 c (containerNames c) = (e, w1)
            \<and> rows_of w' = rows_of w1 \<and> (db w1 \<noteq> None \<longrightarrow> db w' \<noteq> None))"
    by blast
  from alt have "store_wf (rows_of w')"
  proof
    assume "\<exists>err. e0 = Inl err \<and> e = Some err \<and> w' = w0"
    then show ?thesis using r0 assms by auto
  next
    assume b: "e0 = Inr () \<and> db w0 \<noteq> None \<and> store_rows h w0 c (containerNames c) = (e, w1)
            \<and> rows_of w' = rows_of w1 \<and> (db w1 \<noteq> None \<longrightarrow> db w' \<noteq> None)"
    then have "store_wf (rows_of w1)"
      using store_rows_wf [of h w0 c "containerNames c" e w1] assms r0 by simp
    then show ?thesis using b by simp
  qed
  then show ?thesis using a by simp
qed

lemma Remove_rows:
  "rows_of (snd (RemoveInstanceContainers h w name)) = rows_of w
   \<or> rows_of (snd (RemoveInstanceContainers h w name))
       = filter (\<lambda>r. instance_name r \<noteq> name) (rows_of w)"
proof -
  obtain e0 w0 where i: "InitDB h w = (e0, w0)" by (cases "InitDB h w")
  have r0: "rows_of w0 = rows_of w" using InitDB_rows [of h w] i by simp
  show ?thesis
    using i r0
    by (cases e0) (auto simp: RemoveInstanceContainers_def Let_def rows_of_def [of "_\<lparr>db := _\<rparr>"])
qed

lemma Get_rows: "rows_of (snd (GetInstanceContainers h w name)) = rows_of w"
proof -
  obtain e0 w0 where i: "InitDB h w = (e0, w0)" by (cases "InitDB h w")
  have r0: "rows_of w0 = rows_of w" using InitDB_rows [of h w] i by simp
  show ?thesis
    using i r0 by (cases e0) (auto simp: GetInstanceContainers_def Let_def)
qed

lemma store_wf_filter: "store_wf rows \<Longrightarrow> store_wf (filter P rows)"
  by (simp add: store_wf_def)

lemma reachable_wf: "reachable w \<Longrightarrow> store_wf (rows_of w)"
proof (induction rule: reachable.induct)
  case (fresh w)
  then show ?case by (simp add: rows_of_def store_wf_def)
next
  case (store w h config)
  then show ?case by (simp add: Store_wf)
next
  case (remove w h name)
  then show ?case using Remove_rows [of h w name] by (auto simp: store_wf_filter)
next
  case (list w h name)
  then show ?case by (simp add: Get_rows)
next
  case (other w es ls)
  then show ?case by (simp add: rows_of_def)
qed


lemma Store_None_rows:
  assumes st: "StoreInstanceContainers h w c = (None, w')" and wf: "store_wf (rows_of w)"
  shows "db w' \<noteq> None
    \<and> (\<exists>rs. filter (\<lambda>r. instance_name r = InstanceName c) (rows_of w') = rs
          \<and> map container_name rs = containerNames c \<and> (\<forall>r\<in>set rs. row_of_config c r))"
proof -
  from Store_result [OF st] obtain w0 w1 where
    r0: "rows_of w0 = rows_of w" and d0: "db w0 \<noteq> None"
    and sr: "store_rows h w0 c (containerNames c) = (None, w1)"
    and r1: "rows_of w' = rows_of w1" and d1: "db w1 \<noteq> None \<longrightarrow> db w' \<noteq> None"
    by auto
  have wf0: "store_wf (rows_of w0)" using wf r0 by simp
  have "db w1 \<noteq> None"
    using store_rows_wf [OF sr wf0] d0 by simp
  then have dw: "db w' \<noteq> None" using d1 by simp
  from store_rows_None [OF sr containerNames_distinct] obtain rs where
    rows: "rows_of w1 =
      filter (\<lambda>r. \<not> (instance_name r = InstanceName c \<and> container_name r \<in> set (containerNames c)))
        (rows_of w0) @ rs"
    and names: "map container_name rs = containerNames c"
    and cfg: "\<forall>r\<in>set rs. row_of_config c r"
    by blast
  have old: "filter (\<lambda>r. instance_name r = InstanceName c)
      (filter (\<lambda>r. \<not> (instance_name r = InstanceName c \<and> container_name r \<in> set (containerNames c)))
        (rows_of w0)) = []"
    using wf0 by (auto simp: filter_empty_conv store_wf_def containerNames_def)
  have new: "filter (\<lambda>r. instance_name r = InstanceName c) rs = rs"
    using cfg by (auto simp: row_of_config_def filter_id_conv)
  have "filter (\<lambda>r. instance_name r = InstanceName c) (rows_of w') = rs"
    unfolding r1 rows filter_append old new by simp
  then show ?thesis using dw names cfg by blast
qed

text \<open>Claim C6: in every reachable state of the store, after \<^verbatim>\<open>StoreInstanceContainers\<close> has
  returned without error, \<^verbatim>\<open>GetInstanceContainers\<close> for the instance name of the
  configuration (on a host whose database opens and answers the query) returns exactly
  three rows: one named with the suffix \<open>-app\<close>, one with \<open>-postgres\<close>, one with \<open>-neo4j\<close>,
  each with the repository path and the three ports of the configuration.\<close>

theorem C6_store_then_list_roundtrip:
  assumes "reachable w"
    and "StoreInstanceContainers h w config = (None, w')"
    and "InitDB_ok h'" "\<not> sql_fails h' (SelectByInstance (InstanceName config))"
        "\<not> rows_scan_fails h'"
  shows "\<exists>rows ra rp rn.
      GetInstanceContainers h' w' (InstanceName config) = (Inr rows, w')
    \<and> length rows = 3 \<and> set rows = {ra, rp, rn}
    \<and> container_name ra = InstanceName config @ ''-app''
    \<and> container_name rp = InstanceName config @ ''-postgres''
    \<and> container_name rn = InstanceName config @ ''-neo4j''
    \<and> row_of_config config ra \<and> row_of_config config rp \<and> row_of_config config rn"
proof -
  have wf: "store_wf (rows_of w)" using assms(1) by (rule reachable_wf)
  from Store_None_rows [OF assms(2) wf] obtain rs where
    dw: "db w' \<noteq> None"
    and sel: "filter (\<lambda>r. instance_name r = InstanceName config) (rows_of w') = rs"
    and names: "map container_name rs = containerNames config"
    and cfg: "\<forall>r\<in>set rs. row_of_config config r"
    by blast
  from names have "length rs = 3"
    by (metis containerNames_def length_map length_Cons list.size(3) numeral_3_eq_3)
  then obtain ra rp rn where rs: "rs = [ra, rp, rn]"
    by (auto simp: numeral_3_eq_3 length_Suc_conv)
  have init: "InitDB h' w' = (Inr (), w')"
    using assms(3) dw by (rule InitDB_ok_existing)
  have get: "GetInstanceContainers h' w' (InstanceName config)
      = (Inr (sort_key container_name rs), w')"
    using assms(4,5) sel by (simp add: GetInstanceContainers_def init Let_def)
  have "length (sort_key container_name rs) = length rs"
    and "set (sort_key container_name rs) = set rs"
    by simp_all
  then have "length (sort_key container_name rs) = 3"
    and "set (sort_key container_name rs) = {ra, rp, rn}"
    by (simp_all only: rs list.size list.set)
  moreover have "container_name ra = InstanceName config @ ''-app''"
    "container_name rp = InstanceName config @ ''-postgres''"
    "container_name rn = InstanceName config @ ''-neo4j''"
    using names rs by (simp_all add: containerNames_def)
  moreover have "row_of_config config ra" "row_of_config config rp" "row_of_config config rn"
    using cfg rs by simp_all
  ultimately show ?thesis using get by blast
qed

theorem C6_store_then_list_roundtrip_witness:
  "reachable empty_world
   \<and> fst (StoreInstanceContainers quiet_host empty_world demo_config) = None
   \<and> InitDB_ok quiet_host
   \<and> \<not> sql_fails quiet_host (SelectByInstance (InstanceName demo_config))
   \<and> \<not> rows_scan_fails quiet_host
   \<and> (\<exists>rows ra rp rn.
        fst (GetInstanceContainers quiet_host
               (snd (StoreInstanceContainers quiet_host empty_world demo_config))
               ''graphsense-repo'') = Inr rows
        \<and> length rows = 3 \<and> set rows = {ra, rp, rn}
        \<and> container_name ra = ''graphsense-repo-app''
        \<and> container_name rp = ''graphsense-repo-postgres''
        \<and> container_name rn = ''graphsense-repo-neo4j''
        \<and> repo_path ra = ''/srv/repo'' \<and> app_port rp = 8080 \<and> neo4j_bolt_port rn = 8280)"
proof -
  define w' where "w' = snd (StoreInstanceContainers quiet_host empty_world demo_config)"
  have r: "reachable empty_world"
    by (rule reachable.fresh) (simp add: empty_world_def)
  have ok: "fst (StoreInstanceContainers quiet_host empty_world demo_config) = None"
    by (simp add: StoreInstanceContainers_def InitDB_def host_evals empty_world_def
        demo_config_def containerNames_def Let_def rows_of_def log_def insert_or_replace_def)
  then have st: "StoreInstanceContainers quiet_host empty_world demo_config = (None, w')"
    unfolding w'_def by (metis prod.collapse)
  have i: "InitDB_ok quiet_host"
    and q: "\<not> sql_fails quiet_host (SelectByInstance (InstanceName demo_config))"
    and sc: "\<not> rows_scan_fails quiet_host"
    by (simp_all add: InitDB_ok_def host_evals)
  from C6_store_then_list_roundtrip [OF r st i q sc] obtain rows ra rp rn where
    "GetInstanceContainers quiet_host w' (InstanceName demo_config) = (Inr rows, w')"
    "length rows = 3" "set rows = {ra, rp, rn}"
    "container_name ra = InstanceName demo_config @ ''-app''"
    "container_name rp = InstanceName demo_config @ ''-postgres''"
    "container_name rn = InstanceName demo_config @ ''-neo4j''"
    "row_of_config demo_config ra" "row_of_config demo_config rp" "row_of_config demo_config rn"
    by blast
  then have "fst (GetInstanceContainers quiet_host w' ''graphsense-repo'') = Inr rows
        \<and> length rows = 3 \<and> set rows = {ra, rp, rn}
        \<and> container_name ra = ''graphsense-repo-app''
        \<and> container_name rp = ''graphsense-repo-postgres''
        \<and> container_name rn = ''graphsense-repo-neo4j''
        \<and> repo_path ra = ''/srv/repo'' \<and> app_port rp = 8080 \<and> neo4j_bolt_port rn = 8280"
    by (simp add: demo_config_def row_of_config_def)
  then have "\<exists>rows ra rp rn.
        fst (GetInstanceContainers quiet_host w' ''graphsense-repo'') = Inr rows
        \<and> length rows = 3 \<and> set rows = {ra, rp, rn}
        \<and> container_name ra = ''graphsense-repo-app''
        \<and> container_name rp = ''graphsense-repo-postgres''
        \<and> container_name rn = ''graphsense-repo-neo4j''
        \<and> repo_path ra = ''/srv/repo'' \<and> app_port rp = 8080 \<and> neo4j_bolt_port rn = 8280"
    by (intro exI)
  then show ?thesis
    unfolding w'_def by (intro conjI r ok i q sc)
qed

lemma Remove_ok:
  assumes "InitDB_ok h" "db w = Some rows" "\<not> sql_fails h (DeleteByInstance name)"
    "\<not> rows_affected_fails h"
  shows "\<exists>w1. RemoveInstanceContainers h w name = (None, w1)
    \<and> console w1 = console w @
          [Info (''Removed '' @ itoa (int (length (filter (\<lambda>r. instance_name r = name) rows)))
                 @ '' containers for instance '' @ name @ '' from database'')]
    \<and> db w1 = Some (filter (\<lambda>r. instance_name r \<noteq> name) rows)"
proof -
  have "InitDB h w = (Inr (), w)"
    using assms(1,2) by (simp add: InitDB_ok_existing)
  then show ?thesis
    using assms(2-4) by (simp add: RemoveInstanceContainers_def rows_of_def Let_def log_def)
qed

text \<open>Claim C7: when the store holds at least one row of an instance name, and the
  database opens and executes the statement on both calls, two calls of
  \<^verbatim>\<open>RemoveInstanceContainers\<close> in a row both return no error; the first reports a
  positive number of removed rows, the second reports 0 (the count is what the function
  logs: it returns the error only), and no row of the name is left.\<close>

theorem C7_remove_twice:
  assumes "\<exists>r\<in>set (rows_of w). instance_name r = name"
    and "InitDB_ok h" "\<not> sql_fails h (DeleteByInstance name)" "\<not> rows_affected_fails h"
    and "InitDB_ok h'" "\<not> sql_fails h' (DeleteByInstance name)" "\<not> rows_affected_fails h'"
  shows "\<exists>k w1 w2. 0 < k
    \<and> RemoveInstanceContainers h w name = (None, w1)
    \<and> console w1 = console w @ [Info (''Removed '' @ itoa (int k) @ '' containers for instance ''
                                        @ name @ '' from database'')]
    \<and> RemoveInstanceContainers h' w1 name = (None, w2)
    \<and> console w2 = console w1 @ [Info (''Removed '' @ ''0'' @ '' containers for instance ''
                                         @ name @ '' from database'')]
    \<and> (\<forall>r\<in>set (rows_of w2). instance_name r \<noteq> name)"
proof -
  from assms(1) obtain rows where rows: "db w = Some rows"
    by (cases "db w") (auto simp: rows_of_def)
  define hit where "hit = filter (\<lambda>r. instance_name r = name) rows"
  define rest where "rest = filter (\<lambda>r. instance_name r \<noteq> name) rows"
  have pos: "0 < length hit"
    using assms(1) rows by (auto simp: rows_of_def hit_def filter_empty_conv)
  obtain w1 where r1: "RemoveInstanceContainers h w name = (None, w1)"
    and c1: "console w1 = console w @
          [Info (''Removed '' @ itoa (int (length hit))
                 @ '' containers for instance '' @ name @ '' from database'')]"
    and db1: "db w1 = Some rest"
    using Remove_ok [OF assms(2) rows assms(3,4)] unfolding hit_def rest_def by blast
  have none: "filter (\<lambda>r. instance_name r = name) rest = []"
    by (simp add: rest_def filter_empty_conv)
  have same: "filter (\<lambda>r. instance_name r \<noteq> name) rest = rest"
    by (simp add: rest_def)
  have zero: "itoa (int (length ([] :: Instance list))) = ''0''"
    by (simp add: itoa_def digits.simps ascii_digit_def)
  obtain w2 where r2: "RemoveInstanceContainers h' w1 name = (None, w2)"
    and c2: "console w2 = console w1 @
          [Info (''Removed '' @ ''0'' @ '' containers for instance '' @ name @ '' from database'')]"
    and db2: "db w2 = Some rest"
    using Remove_ok [OF assms(5) db1 assms(6,7)] unfolding none same zero by blast
  have gone: "\<forall>r\<in>set (rows_of w2). instance_name r \<noteq> name"
    using db2 by (simp add: rows_of_def rest_def)
  from pos r1 c1 r2 c2 gone show ?thesis
    by blast
qed

theorem C7_remove_twice_witness:
  "demo_row ''-app'' 1 \<in> set (rows_of deployed_world)
   \<and> instance_name (demo_row ''-app'' 1) = ''graphsense-repo''
   \<and> InitDB_ok quiet_host
   \<and> \<not> sql_fails quiet_host (DeleteByInstance ''graphsense-repo'')
   \<and> \<not> rows_affected_fails quiet_host
   \<and> (\<exists>(k::nat) w1 w2. 0 < k
        \<and> RemoveInstanceContainers quiet_host deployed_world ''graphsense-repo'' = (None, w1)
        \<and> RemoveInstanceContainers quiet_host w1 ''graphsense-repo'' = (None, w2)
        \<and> rows_of w2 = [])"
proof -
  have m: "demo_row ''-app'' 1 \<in> set (rows_of deployed_world)"
    and n: "instance_name (demo_row ''-app'' 1) = ''graphsense-repo''"
    by (simp_all add: rows_of_def deployed_world_def demo_row_def)
  then have ex: "\<exists>r\<in>set (rows_of deployed_world). instance_name r = ''graphsense-repo''"
    by blast
  have i: "InitDB_ok quiet_host"
    and d: "\<not> sql_fails quiet_host (DeleteByInstance ''graphsense-repo'')"
    and a: "\<not> rows_affected_fails quiet_host"
    by (simp_all add: InitDB_ok_def host_evals)
  have all: "\<forall>r\<in>set (rows_of deployed_world). instance_name r = ''graphsense-repo''"
    by (simp add: rows_of_def deployed_world_def demo_row_def)
  from C7_remove_twice [OF ex i d a i d a] obtain k w1 w2 where
    k: "0 < k"
    and r1: "RemoveInstanceContainers quiet_host deployed_world ''graphsense-repo'' = (None, w1)"
    and c1: "console w1 = console deployed_world @
      [Info (''Removed '' @ itoa (int k) @ '' containers for instance ''
             @ ''graphsense-repo'' @ '' from database'')]"
    and r2: "RemoveInstanceContainers quiet_host w1 ''graphsense-repo'' = (None, w2)"
    and c2: "console w2 = console w1 @
      [Info (''Removed '' @ ''0'' @ '' containers for instance ''
             @ ''graphsense-repo'' @ '' from database'')]"
    and gone: "\<forall>r\<in>set (rows_of w2). instance_name r \<noteq> ''graphsense-repo''"
    by (elim exE conjE) (rule that, assumption+)
  have "set (rows_of w2) \<subseteq> set (rows_of deployed_world)"
  proof -
    have "set (rows_of w1) \<subseteq> set (rows_of deployed_world)"
      using Remove_rows [of quiet_host deployed_world "''graphsense-repo''"] r1 by auto
    moreover have "set (rows_of w2) \<subseteq> set (rows_of w1)"
      using Remove_rows [of quiet_host w1 "''graphsense-repo''"] r2 by auto
    ultimately show ?thesis by blast
  qed
  then have e: "rows_of w2 = []"
    using gone all by (cases "rows_of w2") auto
  have "0 < k
        \<and> RemoveInstanceContainers quiet_host deployed_world ''graphsense-repo'' = (None, w1)
        \<and> RemoveInstanceContainers quiet_host w1 ''graphsense-repo'' = (None, w2)
        \<and> rows_of w2 = []"
    by (intro conjI k r1 r2 e)
  then have "\<exists>(k::nat) w1 w2. 0 < k
        \<and> RemoveInstanceContainers quiet_host deployed_world ''graphsense-repo'' = (None, w1)
        \<and> RemoveInstanceContainers quiet_host w1 ''graphsense-repo'' = (None, w2)
        \<and> rows_of w2 = []"
    by (intro exI)
  then show ?thesis
    by (intro conjI m n i d a)
qed

section \<open>Properties of the commands\<close>

lemma effects_log [simp]: "effects (log l w) = effects w"
  by (simp add: log_def)

lemma effects_effect [simp]: "effects (effect e w) = effects w @ [e]"
  by (simp add: effect_def)

lemma effects_remove_files [simp]: "effects (remove_files ps w) = effects w @ map RemoveFile ps"
  by (simp add: remove_files_def)




lemma InitDB_effects: "effects (snd (InitDB h w)) = effects w"
  by (auto simp: InitDB_def Let_def split: option.splits)

lemma insert_effects: "effects (insert_or_replace h w c cn) = effects w"
  by (simp add: insert_or_replace_def Let_def)

lemma store_rows_effects: "effects (snd (store_rows h w c cns)) = effects w"
  by (induction cns arbitrary: w) (simp_all add: insert_effects)

lemma Store_effects: "effects (snd (StoreInstanceContainers h w c)) = effects w"
proof -
  obtain e0 w0 where i: "InitDB h w = (e0, w0)" by (cases "InitDB h w")
  then have e0: "effects w0 = effects w" using InitDB_effects [of h w] by simp
  obtain e1 w1 where s: "store_rows h w0 c (containerNames c) = (e1, w1)"
    by (cases "store_rows h w0 c (containerNames c)")
  then have e1: "effects w1 = effects w0" using store_rows_effects [of h w0 c "containerNames c"] by simp
  show ?thesis
    using i s e0 e1 by (cases e0; cases e1) (simp_all add: StoreInstanceContainers_def)
qed





lemma InstanceExists_world:
  "snd (InstanceExists h w name) = effect (Exec ''docker'' (exists_query name) []) w"
  by (simp add: InstanceExists_def exists_query_def Let_def)

lemma InstanceExists_failed:
  "\<not> exit_ok (run_command h (length (effects w)) ''docker'' (exists_query name) []) \<Longrightarrow>
   InstanceExists h w name = (False, effect (Exec ''docker'' (exists_query name) []) w)"
  by (simp add: InstanceExists_def exists_query_def Let_def)

lemma InstanceExists_empty:
  "InstanceExists (answering_empty h (length (effects w))) w name
     = (False, effect (Exec ''docker'' (exists_query name) []) w)"
  by (simp add: InstanceExists_def exists_query_def answering_empty_def Let_def TrimSpace_def)

text \<open>Claim C9: when the query of \<^verbatim>\<open>InstanceExists\<close> itself fails (the \<^verbatim>\<open>docker ps\<close>
  command cannot run or exits with an error), \<^verbatim>\<open>InstanceExists\<close> answers false, and stop,
  start, remove, logs and status all return the error "instance does not exist"; each of
  them returns exactly what it returns on the host that differs only in answering the
  query with success and an empty list, that is, when the instance is really absent.\<close>

theorem C9_failed_query_reads_as_absent:
  assumes "\<not> exit_ok (run_command h (length (effects w)) ''docker'' (exists_query name) [])"
  shows "fst (InstanceExists h w name) = False
    \<and> fst (stopInstance h w name) = Some (ErrInstanceNotExist name)
    \<and> fst (startInstance h w name) = Some (ErrInstanceNotExist name)
    \<and> fst (removeInstance h w name) = Some (ErrInstanceNotExist name)
    \<and> fst (showLogs h w name service) = Some (ErrInstanceNotExist name)
    \<and> fst (showStatus h w name) = Some (ErrInstanceNotExist name)
    \<and> stopInstance h w name = stopInstance (answering_empty h (length (effects w))) w name
    \<and> startInstance h w name = startInstance (answering_empty h (length (effects w))) w name
    \<and> removeInstance h w name = removeInstance (answering_empty h (length (effects w))) w name
    \<and> showLogs h w name service = showLogs (answering_empty h (length (effects w))) w name service
    \<and> showStatus h w name = showStatus (answering_empty h (length (effects w))) w name"
  by (simp add: InstanceExists_failed [OF assms] InstanceExists_empty
      stopInstance_def startInstance_def removeInstance_def showLogs_def showStatus_def)

theorem C9_failed_query_reads_as_absent_witness:
  "\<not> exit_ok (run_command down_host (length (effects empty_world)) ''docker'' (exists_query ''graphsense-repo'') [])
   \<and> fst (stopInstance down_host empty_world ''graphsense-repo'') = Some (ErrInstanceNotExist ''graphsense-repo'')
   \<and> fst (removeInstance down_host empty_world ''graphsense-repo'') = Some (ErrInstanceNotExist ''graphsense-repo'')"
proof -
  have f: "\<not> exit_ok (run_command down_host (length (effects empty_world)) ''docker'' (exists_query ''graphsense-repo'') [])"
    by (simp add: host_evals)
  note t = C9_failed_query_reads_as_absent [OF f, of "[]"]
  have s: "fst (stopInstance down_host empty_world ''graphsense-repo'')
      = Some (ErrInstanceNotExist ''graphsense-repo'')"
    using t by (elim conjE)
  have r: "fst (removeInstance down_host empty_world ''graphsense-repo'')
      = Some (ErrInstanceNotExist ''graphsense-repo'')"
    using t by (elim conjE)
  show ?thesis
    by (intro conjI f s r)
qed

lemma deployInstance_ENOENT:
  assumes "os_Stat h repoPath = StatNotExist"
  shows "deployInstance h w repoPath instanceName basePort = (Some (ErrRepoPathNotExist repoPath), w)"
  using assms by (simp add: deployInstance_def)

lemma deployInstance_ENOENT_example:
  "deployInstance no_path_host empty_world ''/srv/none'' [] 0
     = (Some (ErrRepoPathNotExist ''/srv/none''), empty_world)"
  by (rule deployInstance_ENOENT) (simp add: host_evals)

lemma below_A:
  "deployInstance below_file_host empty_world ''/etc/hostname/repo'' [] 0
   = deploy_config below_file_host
       (effect (PortScan 0)
         (effect (Exec ''docker'' (exists_query ''graphsense-repo'') [])
           (log (Info (''Deploying instance: '' @ ''graphsense-repo'' @ '' for repository: ''
                       @ ''/etc/hostname/repo'')) empty_world)))
       below_file_config"
proof -
  have n: "deploy_instance_name ''/etc/hostname/repo'' [] = ''graphsense-repo''"
    by (simp add: name_evals)
  have fp: "FindAvailablePortSet (listen_fails below_file_host) 0 = Inr 8080"
    by (simp add: FindAvailablePortSet_def DefaultBasePort_def loop_free port_set_in_use_def
        isPortInUse_def host_evals)
  have l: "LoadAPIKeys below_file_host = Inr ([], [])"
    by (simp add: LoadAPIKeys_def host_evals)
  have s: "os_Stat below_file_host ''/etc/hostname/repo'' = StatNotDir"
    and a: "filepath_Abs below_file_host ''/etc/hostname/repo'' = Some ''/etc/hostname/repo''"
    by (simp_all add: host_evals)
  have e: "InstanceExists below_file_host w ''graphsense-repo''
      = (False, effect (Exec ''docker'' (exists_query ''graphsense-repo'') []) w)" for w
    by (simp add: InstanceExists_def exists_query_def host_evals Let_def trims)
  show ?thesis
    by (simp add: deployInstance_def s a n e fp l Let_def below_file_config_def)
qed

lemma below_wait:
  "WaitForHealthy below_file_host w n 60
   = (None, effect (Exec ''docker-compose'' [''ps''] [(''COMPOSE_PROJECT_NAME'', n)])
              (log (Info ''Waiting for services to be healthy...'') w))"
proof -
  have r: "run_command below_file_host t ''docker-compose'' args envs = up_result" for t args envs
    by (simp add: host_evals)
  have u: "exit_ok up_result" "Contains (stdout up_result) ''Up''"
    by (simp_all add: up_result_def HasPrefix_def)
  have "WaitForHealthy_loop below_file_host w' n m (Suc k)
      = (None, effect (Exec ''docker-compose'' [''ps''] [(''COMPOSE_PROJECT_NAME'', n)]) w')" for w' m k
    by (simp add: r u Let_def)
  from this [of _ 60 59] show ?thesis
    by (simp add: WaitForHealthy_def)
qed

lemma below_B:
  "fst (deploy_config below_file_host w below_file_config) = None
   \<and> effects (snd (deploy_config below_file_host w below_file_config))
     = effects w @
       [WriteTemp ''/tmp/graphsense-env-*.env'' (env_file_content below_file_config),
        WriteTemp ''/tmp/graphsense-compose-*.yml'' (compose_override_content below_file_config),
        Exec ''docker-compose''
          [''-f'', ''/home/u/oss/code-graph-rag/docker-compose.yml'',
           ''-f'', ''/tmp/graphsense-compose-*.yml'',
           ''--env-file'', ''/tmp/graphsense-env-*.env'', ''up'', ''-d'']
          [(''COMPOSE_PROJECT_NAME'', ''graphsense-repo'')],
        Exec ''docker-compose'' [''ps''] [(''COMPOSE_PROJECT_NAME'', ''graphsense-repo'')],
        RemoveFile ''/tmp/graphsense-compose-*.yml'',
        RemoveFile ''/tmp/graphsense-env-*.env'']"
proof -
  have t1: "os_CreateTemp below_file_host p = Some (''/tmp/'' @ p)" for p
    by (simp add: host_evals)
  have wf: "\<not> write_fails below_file_host p" for p
    by (simp add: host_evals)
  have rc: "run_command below_file_host t ''docker-compose'' args envs = up_result" for t args envs
    by (simp add: host_evals)
  have hm: "os_UserHomeDir below_file_host = Some ''/home/u''"
    and cf: "filepath_Join below_file_host [''/home/u'', ''oss'', ''code-graph-rag'', ''docker-compose.yml'']
        = ''/home/u/oss/code-graph-rag/docker-compose.yml''"
    and st: "os_Stat below_file_host ''/home/u/oss/code-graph-rag/docker-compose.yml'' = StatOk"
    by (simp_all add: host_evals)
  have nm: "InstanceName below_file_config = ''graphsense-repo''"
    by (simp add: below_file_config_def)
  have ok: "exit_ok up_result" by (simp add: up_result_def)
  define w5 where "w5 =
      effect (Exec ''docker-compose'' [''ps''] [(''COMPOSE_PROJECT_NAME'', ''graphsense-repo'')])
        (log (Info ''Waiting for services to be healthy...'')
          (effect (Exec ''docker-compose''
          [''-f'', ''/home/u/oss/code-graph-rag/docker-compose.yml'',
           ''-f'', ''/tmp/graphsense-compose-*.yml'',
           ''--env-file'', ''/tmp/graphsense-env-*.env'', ''up'', ''-d'']
          [(''COMPOSE_PROJECT_NAME'', ''graphsense-repo'')])
           (log (Info (''Starting services for instance: '' @ ''graphsense-repo''))
             (effect (WriteTemp ''/tmp/graphsense-compose-*.yml'' (compose_override_content below_file_config))
               (effect (WriteTemp ''/tmp/graphsense-env-*.env'' (env_file_content below_file_config)) w)))))"
  obtain e3 wg where s3: "StoreInstanceContainers below_file_host w5 below_file_config = (e3, wg)"
    by (cases "StoreInstanceContainers below_file_host w5 below_file_config")
  have "effects wg = effects w5"
    using Store_effects [of below_file_host w5 below_file_config] s3 by simp
  then have eg: "effects wg = effects w @
       [WriteTemp ''/tmp/graphsense-env-*.env'' (env_file_content below_file_config),
        WriteTemp ''/tmp/graphsense-compose-*.yml'' (compose_override_content below_file_config),
        Exec ''docker-compose''
          [''-f'', ''/home/u/oss/code-graph-rag/docker-compose.yml'',
           ''-f'', ''/tmp/graphsense-compose-*.yml'',
           ''--env-file'', ''/tmp/graphsense-env-*.env'', ''up'', ''-d'']
          [(''COMPOSE_PROJECT_NAME'', ''graphsense-repo'')],
        Exec ''docker-compose'' [''ps''] [(''COMPOSE_PROJECT_NAME'', ''graphsense-repo'')]]"
    by (simp add: w5_def)
  show ?thesis
    using s3 [unfolded w5_def] eg
    by (cases e3)
      (simp_all add: deploy_config_def CreateTempEnvFile_def CreateComposeOverride_def t1 wf hm cf st
        RunDockerCompose_def rc ok nm below_wait Let_def)
qed



text \<open>Claim C5 fails on the code. \<^verbatim>\<open>deployInstance\<close> validates the repository path with
  \<^verbatim>\<open>os.IsNotExist\<close> only, which holds for the error \<^verbatim>\<open>ENOENT\<close> (there the claim is met, see
  \<open>deployInstance_ENOENT\<close>) but for no other error of \<^verbatim>\<open>os.Stat\<close>. The path
  \<open>/etc/hostname/repo\<close> does not exist, \<open>/etc/hostname\<close> being a regular file, and its
  error is \<^verbatim>\<open>ENOTDIR\<close>: the deployment runs to its end. It queries \<^verbatim>\<open>docker ps\<close>, scans the
  ports, writes the two artifacts, runs \<^verbatim>\<open>docker-compose up\<close> and returns no error.\<close>

theorem C5_path_below_file_is_deployed:
  "os_Stat below_file_host ''/etc/hostname/repo'' = StatNotDir
   \<and> fst (deployInstance below_file_host empty_world ''/etc/hostname/repo'' [] 0) = None
   \<and> effects (snd (deployInstance below_file_host empty_world ''/etc/hostname/repo'' [] 0))
     = [Exec ''docker'' (exists_query ''graphsense-repo'') [],
        PortScan 0,
        WriteTemp ''/tmp/graphsense-env-*.env'' (env_file_content below_file_config),
        WriteTemp ''/tmp/graphsense-compose-*.yml'' (compose_override_content below_file_config),
        Exec ''docker-compose''
          [''-f'', ''/home/u/oss/code-graph-rag/docker-compose.yml'',
           ''-f'', ''/tmp/graphsense-compose-*.yml'',
           ''--env-file'', ''/tmp/graphsense-env-*.env'', ''up'', ''-d'']
          [(''COMPOSE_PROJECT_NAME'', ''graphsense-repo'')],
        Exec ''docker-compose'' [''ps''] [(''COMPOSE_PROJECT_NAME'', ''graphsense-repo'')],
        RemoveFile ''/tmp/graphsense-compose-*.yml'',
        RemoveFile ''/tmp/graphsense-env-*.env'']"
proof -
  have s: "os_Stat below_file_host ''/etc/hostname/repo'' = StatNotDir"
    by (simp add: host_evals)
  define wA where "wA = effect (PortScan 0)
         (effect (Exec ''docker'' (exists_query ''graphsense-repo'') [])
           (log (Info (''Deploying instance: '' @ ''graphsense-repo'' @ '' for repository: ''
                       @ ''/etc/hostname/repo'')) empty_world))"
  have A: "deployInstance below_file_host empty_world ''/etc/hostname/repo'' [] 0
      = deploy_config below_file_host wA below_file_config"
    unfolding wA_def by (rule below_A)
  have e: "effects wA = [Exec ''docker'' (exists_query ''graphsense-repo'') [], PortScan 0]"
    by (simp add: wA_def empty_world_def)
  show ?thesis
    unfolding A using s below_B [of wA] by (simp add: e)
qed

text \<open>Claim C10: when the instance exists and the operator's answer, lowered and trimmed,
  is neither \<open>y\<close> nor \<open>yes\<close>, \<^verbatim>\<open>removeInstance\<close> returns no error; the only effect on
  the host is the existence query (no \<^verbatim>\<open>docker-compose\<close> command at all, so no \<^verbatim>\<open>down\<close>
  and no volume removal), the durable store is unchanged, and the console shows the
  warning, the prompt and \<open>Cancelled.\<close>\<close>

theorem C10_declined_remove_changes_nothing:
  assumes "fst (InstanceExists h w name)"
    and "stdin_ReadString h = Some response"
    and "TrimSpace (ToLower response) \<noteq> ''y''" "TrimSpace (ToLower response) \<noteq> ''yes''"
  shows "\<exists>w'. removeInstance h w name = (None, w')
    \<and> db w' = db w \<and> db_seq w' = db_seq w
    \<and> effects w' = effects w @ [Exec ''docker'' (exists_query name) []]
    \<and> console w' = console w @
         [Warning (''This will permanently remove instance '' @ quote name @ '' and all its data.''),
          Print ''Are you sure? (y/N): '', Info ''Cancelled.'']"
proof -
  have ex: "InstanceExists h w name = (True, effect (Exec ''docker'' (exists_query name) []) w)"
    using assms(1) InstanceExists_world [of h w name] by (cases "InstanceExists h w name") simp
  show ?thesis
    using assms(2-4) by (simp add: removeInstance_def ex Let_def log_def effect_def)
qed

theorem C10_declined_remove_changes_nothing_witness:
  "fst (InstanceExists declining_host deployed_world ''graphsense-repo'')
   \<and> stdin_ReadString declining_host = Some (''no'' @ [CHR 0x0A])
   \<and> TrimSpace (ToLower (''no'' @ [CHR 0x0A])) = ''no''
   \<and> fst (removeInstance declining_host deployed_world ''graphsense-repo'') = None
   \<and> db (snd (removeInstance declining_host deployed_world ''graphsense-repo'')) = db deployed_world
   \<and> effects (snd (removeInstance declining_host deployed_world ''graphsense-repo''))
       = [Exec ''docker'' (exists_query ''graphsense-repo'') []]"
proof -
  have ex: "fst (InstanceExists declining_host deployed_world ''graphsense-repo'')"
    by (simp add: InstanceExists_def host_evals Let_def TrimSpace_def space_prefix_len_def
        space_suffix_len_def ascii_space_def unicode_space_def)
  have rd: "stdin_ReadString declining_host = Some (''no'' @ [CHR 0x0A])"
    by (simp add: host_evals)
  have no: "TrimSpace (ToLower (''no'' @ [CHR 0x0A])) = ''no''"
    by (simp add: TrimSpace_def space_prefix_len_def space_suffix_len_def ascii_space_def
        unicode_space_def lower_byte_def ascii_upper_def ascii_lower_def)
  have n1: "TrimSpace (ToLower (''no'' @ [CHR 0x0A])) \<noteq> ''y''"
    and n2: "TrimSpace (ToLower (''no'' @ [CHR 0x0A])) \<noteq> ''yes''"
    unfolding no by simp_all
  from C10_declined_remove_changes_nothing [OF ex rd n1 n2] obtain w' where
    "removeInstance declining_host deployed_world ''graphsense-repo'' = (None, w')"
    "db w' = db deployed_world"
    "effects w' = effects deployed_world @ [Exec ''docker'' (exists_query ''graphsense-repo'') []]"
    by (elim exE conjE) (rule that, assumption+)
  then have "fst (removeInstance declining_host deployed_world ''graphsense-repo'') = None
   \<and> db (snd (removeInstance declining_host deployed_world ''graphsense-repo'')) = db deployed_world
   \<and> effects (snd (removeInstance declining_host deployed_world ''graphsense-repo''))
       = [Exec ''docker'' (exists_query ''graphsense-repo'') []]"
    by (simp add: deployed_world_def)
  then show ?thesis
    by (intro conjI ex rd no) simp_all
qed

lemma remove_confirmed_db: "db (snd (remove_confirmed h w name)) = db w"
  by (simp add: remove_confirmed_def Let_def RunDockerCompose_def log_def effect_def
      split: prod.splits option.splits)

lemma removeInstance_db: "db (snd (removeInstance h w name)) = db w"
  using remove_confirmed_db [of h _ name]
  by (simp add: removeInstance_def InstanceExists_def Let_def log_def effect_def
      split: prod.splits option.splits bool.splits)

text \<open>Claim C1 fails on the code: \<^verbatim>\<open>removeInstance\<close> never calls
  \<^verbatim>\<open>RemoveInstanceContainers\<close>. With the three rows of \<open>graphsense-repo\<close> in the store,
  the instance live and the operator answering \<open>y\<close>, the command returns no error,
  whether \<^verbatim>\<open>docker-compose down\<close> succeeds or fails, and the three rows are still in the
  store afterwards; the console shows no line of the store.\<close>

theorem C1_remove_leaves_store_rows:
  "fst (removeInstance live_host deployed_world ''graphsense-repo'') = None
   \<and> rows_of (snd (removeInstance live_host deployed_world ''graphsense-repo''))
       = [demo_row ''-app'' 1, demo_row ''-postgres'' 2, demo_row ''-neo4j'' 3]
   \<and> fst (removeInstance compose_failing_host deployed_world ''graphsense-repo'') = None
   \<and> rows_of (snd (removeInstance compose_failing_host deployed_world ''graphsense-repo''))
       = [demo_row ''-app'' 1, demo_row ''-postgres'' 2, demo_row ''-neo4j'' 3]
   \<and> console (snd (removeInstance live_host deployed_world ''graphsense-repo''))
       = [Warning (''This will permanently remove instance '' @ quote ''graphsense-repo''
                   @ '' and all its data.''),
          Print ''Are you sure? (y/N): '',
          Info ''Removing instance: graphsense-repo'',
          Info ''Removing associated volumes...'',
          Success (''Instance '' @ quote ''graphsense-repo'' @ '' removed.'')]"
proof -
  have yes: "TrimSpace (ToLower (''y'' @ [CHR 0x0A])) = ''y''"
    by (simp add: TrimSpace_def space_prefix_len_def space_suffix_len_def ascii_space_def
        unicode_space_def lower_byte_def ascii_upper_def ascii_lower_def)
  have listed: "TrimSpace (''graphsense-repo-app'' @ [CHR 0x0A]) \<noteq> []"
    by (simp add: TrimSpace_def space_prefix_len_def space_suffix_len_def ascii_space_def
        unicode_space_def)
  have live: "removeInstance live_host deployed_world ''graphsense-repo''
      = remove_confirmed live_host
          (log (Print ''Are you sure? (y/N): '')
            (log (Warning (''This will permanently remove instance '' @ quote ''graphsense-repo''
                           @ '' and all its data.''))
              (effect (Exec ''docker'' (exists_query ''graphsense-repo'') []) deployed_world)))
          ''graphsense-repo''"
    using yes listed
    by (simp add: removeInstance_def InstanceExists_def exists_query_def host_evals Let_def)
  have failing: "removeInstance compose_failing_host deployed_world ''graphsense-repo''
      = remove_confirmed compose_failing_host
          (log (Print ''Are you sure? (y/N): '')
            (log (Warning (''This will permanently remove instance '' @ quote ''graphsense-repo''
                           @ '' and all its data.''))
              (effect (Exec ''docker'' (exists_query ''graphsense-repo'') []) deployed_world)))
          ''graphsense-repo''"
    using yes listed
    by (simp add: removeInstance_def InstanceExists_def exists_query_def host_evals Let_def)
  have rows: "rows_of (snd (remove_confirmed h w n)) = rows_of w" for h w n
    using remove_confirmed_db [of h w n] by (simp add: rows_of_def)
  have none: "fst (remove_confirmed h w n) = None" for h w n
    by (simp add: remove_confirmed_def Let_def)
  have stored: "rows_of deployed_world
      = [demo_row ''-app'' 1, demo_row ''-postgres'' 2, demo_row ''-neo4j'' 3]"
    by (simp add: rows_of_def deployed_world_def)
  have out: "console (snd (removeInstance live_host deployed_world ''graphsense-repo''))
       = [Warning (''This will permanently remove instance '' @ quote ''graphsense-repo''
                   @ '' and all its data.''),
          Print ''Are you sure? (y/N): '',
          Info ''Removing instance: graphsense-repo'',
          Info ''Removing associated volumes...'',
          Success (''Instance '' @ quote ''graphsense-repo'' @ '' removed.'')]"
    unfolding live
    by (simp add: remove_confirmed_def RunDockerCompose_def host_evals Let_def log_def effect_def
        deployed_world_def)
  have kept: "rows_of (log l1 (log l2 (effect e deployed_world)))
      = [demo_row ''-app'' 1, demo_row ''-postgres'' 2, demo_row ''-neo4j'' 3]" for l1 l2 e
    using stored by (simp add: rows_of_def log_def effect_def)
  have r1: "fst (removeInstance live_host deployed_world ''graphsense-repo'') = None"
    unfolding live by (rule none)
  have r2: "rows_of (snd (removeInstance live_host deployed_world ''graphsense-repo''))
       = [demo_row ''-app'' 1, demo_row ''-postgres'' 2, demo_row ''-neo4j'' 3]"
    unfolding live rows by (rule kept)
  have r3: "fst (removeInstance compose_failing_host deployed_world ''graphsense-repo'') = None"
    unfolding failing by (rule none)
  have r4: "rows_of (snd (removeInstance compose_failing_host deployed_world ''graphsense-repo''))
       = [demo_row ''-app'' 1, demo_row ''-postgres'' 2, demo_row ''-neo4j'' 3]"
    unfolding failing rows by (rule kept)
  show ?thesis
    by (intro conjI r1 r2 r3 r4 out)
qed









lemma CreateTempEnvFile_written:
  "os_CreateTemp h ''graphsense-env-*.env'' = Some f \<Longrightarrow> \<not> write_fails h f \<Longrightarrow>
   CreateTempEnvFile h w config = (Inr f, effect (WriteTemp f (env_file_content config)) w)"
  by (simp add: CreateTempEnvFile_def)






end
